theory Spec2Isabelle
  imports Complex_Main
begin

section \<open>Values exchanged with clients\<close>

text \<open>
  Every server of the repository reads a text frame, decodes it with \<^verbatim>\<open>json.loads\<close> and
  works on the resulting Python value. The decoded values are modelled by \<open>json\<close>; a Python
  \<^verbatim>\<open>dict\<close> with string keys that came from a frame, or that is about to be encoded with
  \<^verbatim>\<open>json.dumps\<close>, is an association list read with \<open>map_of\<close>.
  Python floats are modelled by exact rationals: rounding and overflow of the IEEE double are
  outside the model.
\<close>

datatype json =
    JNone
  | JBool bool
  | JInt int
  | JFloat rat
  | JStr string
  | JList "json list"
  | JObj "(string \<times> json) list"

type_synonym pydict = "(string \<times> json) list"

datatype error =
    TypeError
  | ZeroDivisionError
  | AttributeError
  | JSONDecodeError
  | WebSocketDisconnect

text \<open>A websocket object is identified by a number; what was sent is a log of
  (socket, message) pairs in the order of the \<^verbatim>\<open>send_text\<close> calls. The message is the
  dict handed to \<^verbatim>\<open>json.dumps\<close>. Every \<^verbatim>\<open>send_text\<close> is taken to succeed: failures of the
  transport are outside the model.\<close>

type_synonym websocket = nat

type_synonym outbox = "(websocket \<times> pydict) list"

text \<open>\<^verbatim>\<open>d.get(k)\<close> and \<^verbatim>\<open>d.get(k, default)\<close>.\<close>

definition dict_get :: "pydict \<Rightarrow> string \<Rightarrow> json" where
  "dict_get d k = (case map_of d k of None \<Rightarrow> JNone | Some v \<Rightarrow> v)"

definition dict_get_or :: "pydict \<Rightarrow> string \<Rightarrow> json \<Rightarrow> json" where
  "dict_get_or d k dflt = (case map_of d k of None \<Rightarrow> dflt | Some v \<Rightarrow> v)"

text \<open>Python truthiness, as used by \<^verbatim>\<open>not x\<close>, \<^verbatim>\<open>x and y\<close> and \<^verbatim>\<open>all([...])\<close>.\<close>

fun truthy :: "json \<Rightarrow> bool" where
  "truthy JNone = False"
| "truthy (JBool b) = b"
| "truthy (JInt i) = (i \<noteq> 0)"
| "truthy (JFloat r) = (r \<noteq> 0)"
| "truthy (JStr s) = (s \<noteq> [])"
| "truthy (JList xs) = (xs \<noteq> [])"
| "truthy (JObj d) = (d \<noteq> [])"

text \<open>
  Looking a decoded value up in a dictionary whose keys are all strings (client ids from the
  URL path, transfer ids made by \<^verbatim>\<open>str(uuid.uuid4())\<close>): a string is looked up, a list or
  a dict is unhashable and raises \<^verbatim>\<open>TypeError\<close>, every other value is hashable and equal
  to no string key.
\<close>

fun str_key :: "json \<Rightarrow> error + string option" where
  "str_key (JStr k) = Inr (Some k)"
| "str_key (JList xs) = Inl TypeError"
| "str_key (JObj d) = Inl TypeError"
| "str_key JNone = Inr None"
| "str_key (JBool b) = Inr None"
| "str_key (JInt i) = Inr None"
| "str_key (JFloat r) = Inr None"

text \<open>Numbers as Python arithmetic sees them (\<^verbatim>\<open>bool\<close> is a subclass of \<^verbatim>\<open>int\<close>).\<close>

fun num_of :: "json \<Rightarrow> rat option" where
  "num_of (JBool b) = Some (if b then 1 else 0)"
| "num_of (JInt i) = Some (of_int i)"
| "num_of (JFloat r) = Some r"
| "num_of JNone = None"
| "num_of (JStr s) = None"
| "num_of (JList xs) = None"
| "num_of (JObj d) = None"

text \<open>\<^verbatim>\<open>((chunk_index + 1) / total_chunks) * 100\<close>: the addition raises \<^verbatim>\<open>TypeError\<close> on a
  non-number, the true division raises \<^verbatim>\<open>TypeError\<close> on a non-number divisor and
  \<^verbatim>\<open>ZeroDivisionError\<close> on zero; the result is a float.\<close>

definition chunk_progress :: "json \<Rightarrow> json \<Rightarrow> error + json" where
  "chunk_progress chunk_index total_chunks =
     (case num_of chunk_index of
        None \<Rightarrow> Inl TypeError
      | Some i \<Rightarrow>
          (case num_of total_chunks of
             None \<Rightarrow> Inl TypeError
           | Some n \<Rightarrow>
               if n = 0 then Inl ZeroDivisionError
               else Inr (JFloat (((i + 1) / n) * 100))))"

text \<open>Sequencing of two effects, the second skipped when the first raised.\<close>

definition and_then :: "error option \<times> 's \<Rightarrow> ('s \<Rightarrow> error option \<times> 's) \<Rightarrow> error option \<times> 's" where
  "and_then r f = (case r of (None, s) \<Rightarrow> f s | (Some e, s) \<Rightarrow> (Some e, s))"


section \<open>\<^verbatim>\<open>sharezidi-v3/main.py\<close>\<close>

text \<open>An entry of \<^verbatim>\<open>FileTransferManager.transfers\<close>; the fields are the keys of the dict built
  by \<^verbatim>\<open>create_transfer\<close>, prefixed with \<open>t_\<close>.\<close>

record transfer =
  t_id :: string
  t_file_info :: json
  t_sender_id :: string
  t_receiver_id :: json
  t_status :: string
  t_progress :: json
  t_chunks_received :: int
  t_total_chunks :: json
  t_created_at :: string

text \<open>The two global objects \<^verbatim>\<open>manager\<close> and \<^verbatim>\<open>transfer_manager\<close>, and the log of what was
  sent. (\<^verbatim>\<open>ConnectionManager.file_transfers\<close> is never read or written after \<^verbatim>\<open>__init__\<close>.)\<close>

record main_state =
  m_active_connections :: "string \<rightharpoonup> websocket"
  m_transfers :: "string \<rightharpoonup> transfer"
  m_outbox :: outbox

definition m_send_text :: "websocket \<Rightarrow> pydict \<Rightarrow> main_state \<Rightarrow> main_state" where
  "m_send_text ws msg s = s\<lparr>m_outbox := m_outbox s @ [(ws, msg)]\<rparr>"

definition m_connect :: "websocket \<Rightarrow> string \<Rightarrow> main_state \<Rightarrow> main_state" where
  "m_connect ws client_id s =
     s\<lparr>m_active_connections := (m_active_connections s)(client_id \<mapsto> ws)\<rparr>"

definition m_disconnect :: "string \<Rightarrow> main_state \<Rightarrow> main_state" where
  "m_disconnect client_id s =
     (if m_active_connections s client_id \<noteq> None
      then s\<lparr>m_active_connections := (m_active_connections s)(client_id := None)\<rparr>
      else s)"

definition m_send_to_client :: "json \<Rightarrow> pydict \<Rightarrow> main_state \<Rightarrow> error option \<times> main_state" where
  "m_send_to_client client_id message s =
     (case str_key client_id of
        Inl e \<Rightarrow> (Some e, s)
      | Inr None \<Rightarrow> (None, s)
      | Inr (Some c) \<Rightarrow>
          (case m_active_connections s c of
             None \<Rightarrow> (None, s)
           | Some ws \<Rightarrow> (None, m_send_text ws message s)))"

text \<open>\<^verbatim>\<open>create_transfer\<close>: \<^verbatim>\<open>file_info.get\<close> is evaluated while the new dict is built, so a
  \<^verbatim>\<open>file_info\<close> that is no dict raises before anything is stored.\<close>

definition create_transfer ::
  "string \<Rightarrow> json \<Rightarrow> string \<Rightarrow> json \<Rightarrow> string \<Rightarrow> main_state \<Rightarrow> error option \<times> main_state" where
  "create_transfer transfer_id file_info sender_id receiver_id now s =
     (case file_info of
        JObj fi \<Rightarrow>
          (None, s\<lparr>m_transfers := (m_transfers s)(transfer_id \<mapsto>
             \<lparr>t_id = transfer_id, t_file_info = file_info, t_sender_id = sender_id,
              t_receiver_id = receiver_id, t_status = ''pending'', t_progress = JInt 0,
              t_chunks_received = 0, t_total_chunks = dict_get_or fi ''total_chunks'' (JInt 0),
              t_created_at = now\<rparr>)\<rparr>)
      | _ \<Rightarrow> (Some AttributeError, s))"

definition update_progress :: "json \<Rightarrow> json \<Rightarrow> main_state \<Rightarrow> error option \<times> main_state" where
  "update_progress transfer_id progress s =
     (case str_key transfer_id of
        Inl e \<Rightarrow> (Some e, s)
      | Inr None \<Rightarrow> (None, s)
      | Inr (Some k) \<Rightarrow>
          (case m_transfers s k of
             None \<Rightarrow> (None, s)
           | Some t \<Rightarrow> (None, s\<lparr>m_transfers := (m_transfers s)(k \<mapsto> t\<lparr>t_progress := progress\<rparr>)\<rparr>)))"

definition complete_transfer :: "string \<Rightarrow> main_state \<Rightarrow> main_state" where
  "complete_transfer k s =
     (case m_transfers s k of
        None \<Rightarrow> s
      | Some t \<Rightarrow>
          s\<lparr>m_transfers := (m_transfers s)(k \<mapsto> t\<lparr>t_status := ''completed'', t_progress := JInt 100\<rparr>)\<rparr>)"

text \<open>The handlers. \<open>uuid\<close> is the value of \<^verbatim>\<open>str(uuid.uuid4())\<close> and \<open>now\<close> the value of
  \<^verbatim>\<open>datetime.now().isoformat()\<close> at the call; \<open>websocket\<close> is the socket the frame came from.\<close>

definition handle_file_transfer_start ::
  "string \<Rightarrow> pydict \<Rightarrow> websocket \<Rightarrow> string \<Rightarrow> string \<Rightarrow> main_state \<Rightarrow> error option \<times> main_state" where
  "handle_file_transfer_start client_id message websocket uuid now s =
     (let file_info = dict_get_or message ''file_info'' (JObj []);
          receiver_id = dict_get message ''receiver_id''
      in if \<not> truthy receiver_id
         then (None, m_send_text websocket
                 [(''type'', JStr ''error''), (''message'', JStr ''Receiver ID required'')] s)
         else
           and_then (create_transfer uuid file_info client_id receiver_id now s) (\<lambda>s1.
           and_then (m_send_to_client receiver_id
                       [(''type'', JStr ''incoming_transfer''), (''transfer_id'', JStr uuid),
                        (''file_info'', file_info), (''sender_id'', JStr client_id)] s1) (\<lambda>s2.
           (None, m_send_text websocket
                    [(''type'', JStr ''transfer_started''), (''transfer_id'', JStr uuid),
                     (''status'', JStr ''pending'')] s2))))"

definition handle_file_chunk ::
  "string \<Rightarrow> pydict \<Rightarrow> websocket \<Rightarrow> main_state \<Rightarrow> error option \<times> main_state" where
  "handle_file_chunk client_id message websocket s =
     (let transfer_id = dict_get message ''transfer_id'';
          chunk_data = dict_get message ''chunk_data'';
          chunk_index = dict_get message ''chunk_index'';
          total_chunks = dict_get message ''total_chunks''
      in if \<not> (truthy transfer_id \<and> truthy chunk_data \<and> chunk_index \<noteq> JNone)
         then (None, m_send_text websocket
                 [(''type'', JStr ''error''), (''message'', JStr ''Missing required chunk data'')] s)
         else
           (case chunk_progress chunk_index total_chunks of
              Inl e \<Rightarrow> (Some e, s)
            | Inr progress \<Rightarrow>
                and_then (update_progress transfer_id progress s) (\<lambda>s1.
                (let s2 = m_send_text websocket
                            [(''type'', JStr ''progress_update''), (''transfer_id'', transfer_id),
                             (''progress'', progress), (''chunk_index'', chunk_index)] s1
                 in case str_key transfer_id of
                      Inl e \<Rightarrow> (Some e, s2)
                    | Inr None \<Rightarrow> (None, s2)
                    | Inr (Some k) \<Rightarrow>
                        (case m_transfers s2 k of
                           None \<Rightarrow> (None, s2)
                         | Some t \<Rightarrow>
                             m_send_to_client (t_receiver_id t)
                               [(''type'', JStr ''file_chunk''), (''transfer_id'', transfer_id),
                                (''chunk_data'', chunk_data), (''chunk_index'', chunk_index),
                                (''total_chunks'', total_chunks)] s2)))))"

definition handle_chunk_ack ::
  "string \<Rightarrow> pydict \<Rightarrow> websocket \<Rightarrow> main_state \<Rightarrow> error option \<times> main_state" where
  "handle_chunk_ack client_id message websocket s =
     (let transfer_id = dict_get message ''transfer_id'';
          chunk_index = dict_get message ''chunk_index'';
          received_progress = dict_get_or message ''received_progress'' (JInt 0)
      in case str_key transfer_id of
           Inl e \<Rightarrow> (Some e, s)
         | Inr None \<Rightarrow> (None, s)
         | Inr (Some k) \<Rightarrow>
             (case m_transfers s k of
                None \<Rightarrow> (None, s)
              | Some t \<Rightarrow>
                  m_send_to_client (JStr (t_sender_id t))
                    [(''type'', JStr ''chunk_ack''), (''transfer_id'', transfer_id),
                     (''chunk_index'', chunk_index), (''received_progress'', received_progress)] s))"

definition handle_transfer_complete ::
  "string \<Rightarrow> pydict \<Rightarrow> websocket \<Rightarrow> main_state \<Rightarrow> error option \<times> main_state" where
  "handle_transfer_complete client_id message websocket s =
     (let transfer_id = dict_get message ''transfer_id''
      in case str_key transfer_id of
           Inl e \<Rightarrow> (Some e, s)
         | Inr None \<Rightarrow> (None, s)
         | Inr (Some k) \<Rightarrow>
             (case m_transfers s k of
                None \<Rightarrow> (None, s)
              | Some t \<Rightarrow>
                  (let s1 = complete_transfer k s
                   in m_send_to_client (JStr (t_sender_id t))
                        [(''type'', JStr ''transfer_completed''), (''transfer_id'', transfer_id),
                         (''status'', JStr ''completed'')] s1)))"

definition handle_websocket_message ::
  "string \<Rightarrow> pydict \<Rightarrow> websocket \<Rightarrow> string \<Rightarrow> string \<Rightarrow> main_state \<Rightarrow> error option \<times> main_state" where
  "handle_websocket_message client_id message websocket uuid now s =
     (let message_type = dict_get message ''type''
      in if message_type = JStr ''ping''
         then (None, m_send_text websocket
                 [(''type'', JStr ''pong''), (''timestamp'', dict_get message ''timestamp'')] s)
         else if message_type = JStr ''file_transfer_start''
         then handle_file_transfer_start client_id message websocket uuid now s
         else if message_type = JStr ''file_chunk''
         then handle_file_chunk client_id message websocket s
         else if message_type = JStr ''chunk_ack''
         then handle_chunk_ack client_id message websocket s
         else if message_type = JStr ''transfer_complete''
         then handle_transfer_complete client_id message websocket s
         else (None, s))"

text \<open>
  \<^verbatim>\<open>websocket_endpoint\<close>: the frames of one connection in the order received, each with the
  values \<^verbatim>\<open>uuid4\<close> and \<^verbatim>\<open>now\<close> would give while it is handled. A frame is text that
  \<^verbatim>\<open>json.loads\<close> decodes, or text that it rejects; the end of the list is the client closing
  the socket (\<^verbatim>\<open>receive_text\<close> raises \<^verbatim>\<open>WebSocketDisconnect\<close>). A decoded value that is no
  dict has no \<^verbatim>\<open>get\<close> (\<^verbatim>\<open>AttributeError\<close>). Both \<^verbatim>\<open>except\<close> clauses call
  \<^verbatim>\<open>manager.disconnect\<close> and leave the loop.
\<close>

datatype frame = Decoded json | Undecodable

fun receive_loop ::
  "string \<Rightarrow> websocket \<Rightarrow> (frame \<times> string \<times> string) list \<Rightarrow> main_state \<Rightarrow> main_state" where
  "receive_loop client_id websocket [] s = m_disconnect client_id s"
| "receive_loop client_id websocket ((Undecodable, uuid, now) # rest) s = m_disconnect client_id s"
| "receive_loop client_id websocket ((Decoded (JObj message), uuid, now) # rest) s =
     (case handle_websocket_message client_id message websocket uuid now s of
        (None, s1) \<Rightarrow> receive_loop client_id websocket rest s1
      | (Some e, s1) \<Rightarrow> m_disconnect client_id s1)"
| "receive_loop client_id websocket ((Decoded v, uuid, now) # rest) s = m_disconnect client_id s"

definition websocket_endpoint ::
  "websocket \<Rightarrow> string \<Rightarrow> (frame \<times> string \<times> string) list \<Rightarrow> main_state \<Rightarrow> main_state" where
  "websocket_endpoint websocket client_id frames s =
     receive_loop client_id websocket frames (m_connect websocket client_id s)"


section \<open>\<^verbatim>\<open>sharezidi-v3/ultimate_main.py\<close>\<close>

text \<open>The \<^verbatim>\<open>ConnectionManager\<close> of this server, the dict \<^verbatim>\<open>streaming_engine.active_streams\<close>
  that holds its transfers, and the log of what was sent.\<close>

record ult_state =
  u_active_connections :: "string \<rightharpoonup> websocket"
  u_webrtc_connections :: "string \<rightharpoonup> json"
  u_device_capabilities :: "string \<rightharpoonup> json"
  u_active_streams :: "string \<rightharpoonup> json"
  u_outbox :: outbox


definition u_disconnect :: "string \<Rightarrow> ult_state \<Rightarrow> ult_state" where
  "u_disconnect client_id s =
     (let s1 = (if u_active_connections s client_id \<noteq> None
                then s\<lparr>u_active_connections := (u_active_connections s)(client_id := None)\<rparr>
                else s);
          s2 = (if u_device_capabilities s1 client_id \<noteq> None
                then s1\<lparr>u_device_capabilities := (u_device_capabilities s1)(client_id := None)\<rparr>
                else s1)
      in if u_webrtc_connections s2 client_id \<noteq> None
         then s2\<lparr>u_webrtc_connections := (u_webrtc_connections s2)(client_id := None)\<rparr>
         else s2)"

text \<open>\<^verbatim>\<open>send_to_client\<close> returns a bool that no caller reads; the membership test is outside
  its \<^verbatim>\<open>try\<close>. A \<^verbatim>\<open>send_text\<close> on a registered socket is taken to succeed.\<close>

definition u_send_to_client :: "json \<Rightarrow> pydict \<Rightarrow> ult_state \<Rightarrow> error option \<times> ult_state" where
  "u_send_to_client client_id message s =
     (case str_key client_id of
        Inl e \<Rightarrow> (Some e, s)
      | Inr None \<Rightarrow> (None, s)
      | Inr (Some c) \<Rightarrow>
          (case u_active_connections s c of
             None \<Rightarrow> (None, s)
           | Some ws \<Rightarrow> (None, s\<lparr>u_outbox := u_outbox s @ [(ws, message)]\<rparr>)))"

text \<open>\<^verbatim>\<open>target_client and target_client in connection_manager.active_connections\<close>.\<close>

definition u_target_registered :: "json \<Rightarrow> ult_state \<Rightarrow> error + bool" where
  "u_target_registered target_client s =
     (if \<not> truthy target_client then Inr False
      else case str_key target_client of
             Inl e \<Rightarrow> Inl e
           | Inr None \<Rightarrow> Inr False
           | Inr (Some c) \<Rightarrow> Inr (u_active_connections s c \<noteq> None))"

definition u_handle_webrtc_offer ::
  "string \<Rightarrow> pydict \<Rightarrow> websocket \<Rightarrow> ult_state \<Rightarrow> error option \<times> ult_state" where
  "u_handle_webrtc_offer client_id message websocket s =
     (let offer = dict_get message ''offer'';
          target_client = dict_get message ''target_client''
      in case u_target_registered target_client s of
           Inl e \<Rightarrow> (Some e, s)
         | Inr True \<Rightarrow>
             u_send_to_client target_client
               [(''type'', JStr ''webrtc_offer''), (''offer'', offer),
                (''from_client'', JStr client_id)] s
         | Inr False \<Rightarrow>
             (None, s\<lparr>u_outbox := u_outbox s @
                [(websocket, [(''type'', JStr ''error''),
                              (''message'', JStr ''Target client not found'')])]\<rparr>))"

definition u_handle_webrtc_answer ::
  "string \<Rightarrow> pydict \<Rightarrow> websocket \<Rightarrow> ult_state \<Rightarrow> error option \<times> ult_state" where
  "u_handle_webrtc_answer client_id message websocket s =
     (let answer = dict_get message ''answer'';
          target_client = dict_get message ''target_client''
      in case u_target_registered target_client s of
           Inl e \<Rightarrow> (Some e, s)
         | Inr True \<Rightarrow>
             u_send_to_client target_client
               [(''type'', JStr ''webrtc_answer''), (''answer'', answer),
                (''from_client'', JStr client_id)] s
         | Inr False \<Rightarrow> (None, s))"




section \<open>\<^verbatim>\<open>sharezidi-v3-python/webrtc_manager.py\<close>\<close>

text \<open>An entry of \<^verbatim>\<open>WebRTCManager.active_connections\<close> (fields prefixed with \<open>c_\<close>). The
  sender is the session's client id, a string; the receiver is whatever the start request
  carried.\<close>

record connection =
  c_sender_id :: string
  c_receiver_id :: json
  c_file_info :: json
  c_status :: string
  c_created_at :: string
  c_ice_candidates :: "pydict list"
  c_offer :: json
  c_answer :: json

record webrtc_manager =
  wm_active_connections :: "string \<rightharpoonup> connection"
  wm_pending_offers :: "string \<rightharpoonup> json"
  wm_pending_answers :: "string \<rightharpoonup> json"
  wm_ice_candidates :: "string \<rightharpoonup> json list"

text \<open>\<open>connection_id\<close> is the value of the f-string
  \<^verbatim>\<open>f"webrtc_{sender_id}_{receiver_id}_{datetime.now().timestamp()}"\<close> and \<open>now\<close> the value of
  \<^verbatim>\<open>datetime.now().isoformat()\<close> at the call.\<close>

definition initiate_connection ::
  "string \<Rightarrow> json \<Rightarrow> json \<Rightarrow> string \<Rightarrow> string \<Rightarrow> webrtc_manager \<Rightarrow> string \<times> webrtc_manager" where
  "initiate_connection sender_id receiver_id file_info connection_id now m =
     (connection_id,
      m\<lparr>wm_active_connections := (wm_active_connections m)(connection_id \<mapsto>
          \<lparr>c_sender_id = sender_id, c_receiver_id = receiver_id, c_file_info = file_info,
           c_status = ''initiating'', c_created_at = now, c_ice_candidates = [],
           c_offer = JNone, c_answer = JNone\<rparr>)\<rparr>)"

definition handle_offer ::
  "json \<Rightarrow> json \<Rightarrow> string \<Rightarrow> webrtc_manager \<Rightarrow> (error + bool) \<times> webrtc_manager" where
  "handle_offer connection_id offer client_id m =
     (case str_key connection_id of
        Inl e \<Rightarrow> (Inl e, m)
      | Inr None \<Rightarrow> (Inr False, m)
      | Inr (Some k) \<Rightarrow>
          (case wm_active_connections m k of
             None \<Rightarrow> (Inr False, m)
           | Some c \<Rightarrow>
               if c_sender_id c \<noteq> client_id then (Inr False, m)
               else (Inr True,
                     m\<lparr>wm_active_connections := (wm_active_connections m)(k \<mapsto>
                         c\<lparr>c_offer := offer, c_status := ''offer_received''\<rparr>)\<rparr>)))"

definition handle_answer ::
  "json \<Rightarrow> json \<Rightarrow> string \<Rightarrow> webrtc_manager \<Rightarrow> (error + bool) \<times> webrtc_manager" where
  "handle_answer connection_id answer client_id m =
     (case str_key connection_id of
        Inl e \<Rightarrow> (Inl e, m)
      | Inr None \<Rightarrow> (Inr False, m)
      | Inr (Some k) \<Rightarrow>
          (case wm_active_connections m k of
             None \<Rightarrow> (Inr False, m)
           | Some c \<Rightarrow>
               if c_receiver_id c \<noteq> JStr client_id then (Inr False, m)
               else (Inr True,
                     m\<lparr>wm_active_connections := (wm_active_connections m)(k \<mapsto>
                         c\<lparr>c_answer := answer, c_status := ''answer_received''\<rparr>)\<rparr>)))"


text \<open>An entry of \<^verbatim>\<open>P2PTransferManager.active_transfers\<close> (fields prefixed with \<open>p_\<close>; the
  key \<^verbatim>\<open>completed_at\<close> exists only after completion) and one of \<^verbatim>\<open>transfer_stats\<close>.\<close>

record p2p_transfer =
  p_transfer_id :: string
  p_connection_id :: string
  p_sender_id :: string
  p_receiver_id :: json
  p_file_info :: json
  p_status :: string
  p_progress :: json
  p_chunks_sent :: json
  p_chunks_received :: json
  p_total_chunks :: json
  p_started_at :: string
  p_transfer_speed :: int
  p_estimated_time :: int
  p_completed_at :: "string option"

record p2p_stats =
  ps_bytes_transferred :: json
  ps_chunks_acknowledged :: int
  ps_retry_count :: int
  ps_network_quality :: json
  ps_optimal_chunk_size :: int
  ps_concurrent_streams :: int

record p2p_manager =
  pm_webrtc_manager :: webrtc_manager
  pm_active_transfers :: "string \<rightharpoonup> p2p_transfer"
  pm_transfer_stats :: "string \<rightharpoonup> p2p_stats"

text \<open>\<^verbatim>\<open>start_transfer\<close>: \<open>transfer_id\<close> and \<open>connection_id\<close> are the values of the two
  f-strings. The connection is made first; a \<^verbatim>\<open>file_info\<close> that is no dict then raises in
  \<^verbatim>\<open>file_info.get\<close>, before the transfer is stored.\<close>

definition start_transfer ::
  "string \<Rightarrow> json \<Rightarrow> json \<Rightarrow> string \<Rightarrow> string \<Rightarrow> string \<Rightarrow> p2p_manager
     \<Rightarrow> (error + string) \<times> p2p_manager" where
  "start_transfer sender_id receiver_id file_info transfer_id connection_id now pm =
     (let (cid, wm) = initiate_connection sender_id receiver_id file_info connection_id now
                        (pm_webrtc_manager pm);
          pm1 = pm\<lparr>pm_webrtc_manager := wm\<rparr>
      in case file_info of
           JObj fi \<Rightarrow>
             (Inr transfer_id,
              pm1\<lparr>pm_active_transfers := (pm_active_transfers pm1)(transfer_id \<mapsto>
                     \<lparr>p_transfer_id = transfer_id, p_connection_id = cid,
                      p_sender_id = sender_id, p_receiver_id = receiver_id,
                      p_file_info = file_info, p_status = ''pending'',
                      p_progress = JFloat 0, p_chunks_sent = JInt 0, p_chunks_received = JInt 0,
                      p_total_chunks = dict_get_or fi ''total_chunks'' (JInt 0),
                      p_started_at = now, p_transfer_speed = 0, p_estimated_time = 0,
                      p_completed_at = None\<rparr>),
                   pm_transfer_stats := (pm_transfer_stats pm1)(transfer_id \<mapsto>
                     \<lparr>ps_bytes_transferred = JInt 0, ps_chunks_acknowledged = 0,
                      ps_retry_count = 0, ps_network_quality = JStr ''unknown'',
                      ps_optimal_chunk_size = 64 * 1024, ps_concurrent_streams = 1\<rparr>)\<rparr>)
         | _ \<Rightarrow> (Inl AttributeError, pm1))"

text \<open>\<^verbatim>\<open>update_transfer_progress\<close>; an argument left at its default \<^verbatim>\<open>None\<close> is \<open>JNone\<close>.\<close>

definition update_transfer_progress ::
  "json \<Rightarrow> json \<Rightarrow> json \<Rightarrow> json \<Rightarrow> p2p_manager \<Rightarrow> error option \<times> p2p_manager" where
  "update_transfer_progress transfer_id progress chunks_sent chunks_received pm =
     (case str_key transfer_id of
        Inl e \<Rightarrow> (Some e, pm)
      | Inr None \<Rightarrow> (None, pm)
      | Inr (Some k) \<Rightarrow>
          (case pm_active_transfers pm k of
             None \<Rightarrow> (None, pm)
           | Some t \<Rightarrow>
               (let t1 = t\<lparr>p_progress := progress\<rparr>;
                    t2 = (if chunks_sent \<noteq> JNone then t1\<lparr>p_chunks_sent := chunks_sent\<rparr> else t1);
                    t3 = (if chunks_received \<noteq> JNone
                          then t2\<lparr>p_chunks_received := chunks_received\<rparr> else t2)
                in (None, pm\<lparr>pm_active_transfers := (pm_active_transfers pm)(k \<mapsto> t3)\<rparr>))))"

definition p2p_complete_transfer :: "string \<Rightarrow> string \<Rightarrow> p2p_manager \<Rightarrow> p2p_manager" where
  "p2p_complete_transfer k now pm =
     (case pm_active_transfers pm k of
        None \<Rightarrow> pm
      | Some t \<Rightarrow>
          pm\<lparr>pm_active_transfers := (pm_active_transfers pm)(k \<mapsto>
               t\<lparr>p_status := ''completed'', p_progress := JFloat 100,
                 p_completed_at := Some now\<rparr>)\<rparr>)"


section \<open>\<^verbatim>\<open>sharezidi-v3-python/advanced_server.py\<close>\<close>

text \<open>The \<^verbatim>\<open>ConnectionManager\<close> of this server, the global \<^verbatim>\<open>p2p_transfer_manager\<close> (whose
  \<^verbatim>\<open>webrtc_manager\<close> is the global \<^verbatim>\<open>webrtc_manager\<close>), and the log of what was sent.\<close>

record adv_state =
  a_active_connections :: "string \<rightharpoonup> websocket"
  a_client_info :: "string \<rightharpoonup> json"
  a_p2p :: p2p_manager
  a_outbox :: outbox

definition a_send_text :: "websocket \<Rightarrow> pydict \<Rightarrow> adv_state \<Rightarrow> adv_state" where
  "a_send_text ws msg s = s\<lparr>a_outbox := a_outbox s @ [(ws, msg)]\<rparr>"

definition a_send_to_client :: "json \<Rightarrow> pydict \<Rightarrow> adv_state \<Rightarrow> error option \<times> adv_state" where
  "a_send_to_client client_id message s =
     (case str_key client_id of
        Inl e \<Rightarrow> (Some e, s)
      | Inr None \<Rightarrow> (None, s)
      | Inr (Some c) \<Rightarrow>
          (case a_active_connections s c of
             None \<Rightarrow> (None, s)
           | Some ws \<Rightarrow> (None, a_send_text ws message s)))"

definition a_set_webrtc :: "webrtc_manager \<Rightarrow> adv_state \<Rightarrow> adv_state" where
  "a_set_webrtc wm s = s\<lparr>a_p2p := (a_p2p s)\<lparr>pm_webrtc_manager := wm\<rparr>\<rparr>"

text \<open>\<^verbatim>\<open>webrtc_manager.get_connection_info\<close> on a key that is a string.\<close>

definition get_connection_info :: "string \<Rightarrow> webrtc_manager \<Rightarrow> connection option" where
  "get_connection_info k m = wm_active_connections m k"

definition a_handle_webrtc_offer ::
  "string \<Rightarrow> pydict \<Rightarrow> websocket \<Rightarrow> adv_state \<Rightarrow> error option \<times> adv_state" where
  "a_handle_webrtc_offer client_id message websocket s =
     (let connection_id = dict_get message ''connection_id'';
          offer = dict_get message ''offer''
      in if \<not> truthy connection_id \<or> \<not> truthy offer
         then (None, a_send_text websocket
                 [(''type'', JStr ''error''),
                  (''message'', JStr ''Connection ID and offer required'')] s)
         else
           (case handle_offer connection_id offer client_id (pm_webrtc_manager (a_p2p s)) of
              (Inl e, wm) \<Rightarrow> (Some e, a_set_webrtc wm s)
            | (Inr success, wm) \<Rightarrow>
                and_then
                  (let s1 = a_set_webrtc wm s
                   in if success
                      then (case str_key connection_id of
                              Inr (Some k) \<Rightarrow>
                                (case get_connection_info k wm of
                                   Some c \<Rightarrow>
                                     a_send_to_client (c_receiver_id c)
                                       [(''type'', JStr ''webrtc_offer''),
                                        (''connection_id'', connection_id), (''offer'', offer),
                                        (''sender_id'', JStr client_id)] s1
                                 | None \<Rightarrow> (None, s1))
                            | _ \<Rightarrow> (None, s1))
                      else (None, s1))
                  (\<lambda>s2. (None, a_send_text websocket
                            [(''type'', JStr ''webrtc_offer_processed''),
                             (''connection_id'', connection_id),
                             (''success'', JBool success)] s2))))"

definition a_handle_webrtc_answer ::
  "string \<Rightarrow> pydict \<Rightarrow> websocket \<Rightarrow> adv_state \<Rightarrow> error option \<times> adv_state" where
  "a_handle_webrtc_answer client_id message websocket s =
     (let connection_id = dict_get message ''connection_id'';
          answer = dict_get message ''answer''
      in if \<not> truthy connection_id \<or> \<not> truthy answer
         then (None, a_send_text websocket
                 [(''type'', JStr ''error''),
                  (''message'', JStr ''Connection ID and answer required'')] s)
         else
           (case handle_answer connection_id answer client_id (pm_webrtc_manager (a_p2p s)) of
              (Inl e, wm) \<Rightarrow> (Some e, a_set_webrtc wm s)
            | (Inr success, wm) \<Rightarrow>
                and_then
                  (let s1 = a_set_webrtc wm s
                   in if success
                      then (case str_key connection_id of
                              Inr (Some k) \<Rightarrow>
                                (case get_connection_info k wm of
                                   Some c \<Rightarrow>
                                     a_send_to_client (JStr (c_sender_id c))
                                       [(''type'', JStr ''webrtc_answer''),
                                        (''connection_id'', connection_id), (''answer'', answer),
                                        (''receiver_id'', JStr client_id)] s1
                                 | None \<Rightarrow> (None, s1))
                            | _ \<Rightarrow> (None, s1))
                      else (None, s1))
                  (\<lambda>s2. (None, a_send_text websocket
                            [(''type'', JStr ''webrtc_answer_processed''),
                             (''connection_id'', connection_id),
                             (''success'', JBool success)] s2))))"



definition a_handle_transfer_progress ::
  "string \<Rightarrow> pydict \<Rightarrow> websocket \<Rightarrow> adv_state \<Rightarrow> error option \<times> adv_state" where
  "a_handle_transfer_progress client_id message websocket s =
     (let transfer_id = dict_get message ''transfer_id'';
          progress = dict_get message ''progress''
      in case str_key transfer_id of
           Inl e \<Rightarrow> (Some e, s)
         | Inr None \<Rightarrow> (None, s)
         | Inr (Some k) \<Rightarrow>
             (case pm_active_transfers (a_p2p s) k of
                None \<Rightarrow> (None, s)
              | Some t \<Rightarrow>
                  (case update_transfer_progress transfer_id progress JNone JNone (a_p2p s) of
                     (Some e, pm) \<Rightarrow> (Some e, s\<lparr>a_p2p := pm\<rparr>)
                   | (None, pm) \<Rightarrow>
                       (case pm_transfer_stats pm k of
                          None \<Rightarrow> (None, s\<lparr>a_p2p := pm\<rparr>)
                        | Some stats \<Rightarrow>
                            (None, s\<lparr>a_p2p := pm\<lparr>pm_transfer_stats := (pm_transfer_stats pm)(k \<mapsto>
                               stats\<lparr>ps_bytes_transferred :=
                                        dict_get_or message ''bytes_transferred'' (JInt 0),
                                      ps_network_quality :=
                                        dict_get_or message ''network_quality'' (JStr ''unknown'')\<rparr>)\<rparr>\<rparr>)))))"

definition a_handle_transfer_complete ::
  "string \<Rightarrow> pydict \<Rightarrow> websocket \<Rightarrow> string \<Rightarrow> adv_state \<Rightarrow> error option \<times> adv_state" where
  "a_handle_transfer_complete client_id message websocket now s =
     (let transfer_id = dict_get message ''transfer_id''
      in case str_key transfer_id of
           Inl e \<Rightarrow> (Some e, s)
         | Inr None \<Rightarrow> (None, s)
         | Inr (Some k) \<Rightarrow>
             (case pm_active_transfers (a_p2p s) k of
                None \<Rightarrow> (None, s)
              | Some t \<Rightarrow>
                  (let s1 = s\<lparr>a_p2p := p2p_complete_transfer k now (a_p2p s)\<rparr>;
                       notice = [(''type'', JStr ''transfer_completed''), (''transfer_id'', transfer_id),
                               (''status'', JStr ''completed'')]
                   in and_then (a_send_to_client (JStr (p_sender_id t)) notice s1)
                        (\<lambda>s2. a_send_to_client (p_receiver_id t) notice s2))))"


section \<open>\<^verbatim>\<open>sharezidi-v3-python/working_server.py\<close>\<close>

text \<open>An entry of \<^verbatim>\<open>manager.transfers\<close> (fields prefixed with \<open>wt_\<close>), and the state of the
  server: its \<^verbatim>\<open>ConnectionManager\<close> and the log of what was sent.\<close>

record w_transfer =
  wt_id :: string
  wt_file_info :: json
  wt_sender_id :: string
  wt_receiver_id :: json
  wt_status :: string
  wt_progress :: json
  wt_chunks_received :: json
  wt_total_chunks :: json

record work_state =
  w_active_connections :: "string \<rightharpoonup> websocket"
  w_transfers :: "string \<rightharpoonup> w_transfer"
  w_outbox :: outbox

definition w_send_text :: "websocket \<Rightarrow> pydict \<Rightarrow> work_state \<Rightarrow> work_state" where
  "w_send_text ws msg s = s\<lparr>w_outbox := w_outbox s @ [(ws, msg)]\<rparr>"

definition w_send_to_client :: "json \<Rightarrow> pydict \<Rightarrow> work_state \<Rightarrow> error option \<times> work_state" where
  "w_send_to_client client_id message s =
     (case str_key client_id of
        Inl e \<Rightarrow> (Some e, s)
      | Inr None \<Rightarrow> (None, s)
      | Inr (Some c) \<Rightarrow>
          (case w_active_connections s c of
             None \<Rightarrow> (None, s)
           | Some ws \<Rightarrow> (None, w_send_text ws message s)))"

definition w_handle_file_transfer_start ::
  "string \<Rightarrow> pydict \<Rightarrow> websocket \<Rightarrow> string \<Rightarrow> work_state \<Rightarrow> error option \<times> work_state" where
  "w_handle_file_transfer_start client_id message websocket uuid s =
     (let file_info = dict_get_or message ''file_info'' (JObj []);
          receiver_id = dict_get message ''receiver_id''
      in if \<not> truthy receiver_id
         then (None, w_send_text websocket
                 [(''type'', JStr ''error''), (''message'', JStr ''Receiver ID required'')] s)
         else
           (case file_info of
              JObj fi \<Rightarrow>
                and_then
                  (w_send_to_client receiver_id
                     [(''type'', JStr ''incoming_transfer''), (''transfer_id'', JStr uuid),
                      (''file_info'', file_info), (''sender_id'', JStr client_id)]
                     (s\<lparr>w_transfers := (w_transfers s)(uuid \<mapsto>
                         \<lparr>wt_id = uuid, wt_file_info = file_info, wt_sender_id = client_id,
                          wt_receiver_id = receiver_id, wt_status = ''pending'',
                          wt_progress = JInt 0, wt_chunks_received = JInt 0,
                          wt_total_chunks = dict_get_or fi ''total_chunks'' (JInt 0)\<rparr>)\<rparr>))
                  (\<lambda>s2. (None, w_send_text websocket
                            [(''type'', JStr ''transfer_started''), (''transfer_id'', JStr uuid),
                             (''status'', JStr ''pending'')] s2))
            | _ \<Rightarrow> (Some AttributeError, s)))"

text \<open>\<^verbatim>\<open>chunk_index + 1\<close>, once the progress has been computed from the same
  \<^verbatim>\<open>chunk_index\<close> (so it is a number): an \<^verbatim>\<open>int\<close> or \<^verbatim>\<open>bool\<close> gives an \<^verbatim>\<open>int\<close>, a float a
  float.\<close>

fun plus_one :: "json \<Rightarrow> json" where
  "plus_one (JInt i) = JInt (i + 1)"
| "plus_one (JBool b) = JInt ((if b then 1 else 0) + 1)"
| "plus_one (JFloat r) = JFloat (r + 1)"
| "plus_one v = v"

definition w_handle_file_chunk ::
  "string \<Rightarrow> pydict \<Rightarrow> websocket \<Rightarrow> work_state \<Rightarrow> error option \<times> work_state" where
  "w_handle_file_chunk client_id message websocket s =
     (let transfer_id = dict_get message ''transfer_id'';
          chunk_data = dict_get message ''chunk_data'';
          chunk_index = dict_get message ''chunk_index'';
          total_chunks = dict_get message ''total_chunks''
      in if \<not> (truthy transfer_id \<and> truthy chunk_data \<and> chunk_index \<noteq> JNone)
         then (None, w_send_text websocket
                 [(''type'', JStr ''error''), (''message'', JStr ''Missing required chunk data'')] s)
         else
           (case chunk_progress chunk_index total_chunks of
              Inl e \<Rightarrow> (Some e, s)
            | Inr progress \<Rightarrow>
                (case str_key transfer_id of
                   Inl e \<Rightarrow> (Some e, s)
                 | Inr kopt \<Rightarrow>
                     (let found = (case kopt of None \<Rightarrow> None
                                   | Some k \<Rightarrow> map_option (Pair k) (w_transfers s k));
                          s1 = (case found of
                                  None \<Rightarrow> s
                                | Some (k, t) \<Rightarrow>
                                    s\<lparr>w_transfers := (w_transfers s)(k \<mapsto>
                                        t\<lparr>wt_progress := progress,
                                          wt_chunks_received := plus_one chunk_index\<rparr>)\<rparr>);
                          s2 = w_send_text websocket
                                 [(''type'', JStr ''progress_update''), (''transfer_id'', transfer_id),
                                  (''progress'', progress), (''chunk_index'', chunk_index)] s1
                      in case found of
                           None \<Rightarrow> (None, s2)
                         | Some (k, t) \<Rightarrow>
                             w_send_to_client (wt_receiver_id t)
                               [(''type'', JStr ''file_chunk''), (''transfer_id'', transfer_id),
                                (''chunk_data'', chunk_data), (''chunk_index'', chunk_index),
                                (''total_chunks'', total_chunks)] s2))))"

definition w_handle_chunk_ack ::
  "string \<Rightarrow> pydict \<Rightarrow> websocket \<Rightarrow> work_state \<Rightarrow> error option \<times> work_state" where
  "w_handle_chunk_ack client_id message websocket s =
     (let transfer_id = dict_get message ''transfer_id'';
          chunk_index = dict_get message ''chunk_index'';
          received_progress = dict_get_or message ''received_progress'' (JInt 0)
      in case str_key transfer_id of
           Inl e \<Rightarrow> (Some e, s)
         | Inr None \<Rightarrow> (None, s)
         | Inr (Some k) \<Rightarrow>
             (case w_transfers s k of
                None \<Rightarrow> (None, s)
              | Some t \<Rightarrow>
                  w_send_to_client (JStr (wt_sender_id t))
                    [(''type'', JStr ''chunk_ack''), (''transfer_id'', transfer_id),
                     (''chunk_index'', chunk_index), (''received_progress'', received_progress)] s))"

definition w_handle_transfer_complete ::
  "string \<Rightarrow> pydict \<Rightarrow> websocket \<Rightarrow> work_state \<Rightarrow> error option \<times> work_state" where
  "w_handle_transfer_complete client_id message websocket s =
     (let transfer_id = dict_get message ''transfer_id''
      in case str_key transfer_id of
           Inl e \<Rightarrow> (Some e, s)
         | Inr None \<Rightarrow> (None, s)
         | Inr (Some k) \<Rightarrow>
             (case w_transfers s k of
                None \<Rightarrow> (None, s)
              | Some t \<Rightarrow>
                  w_send_to_client (JStr (wt_sender_id t))
                    [(''type'', JStr ''transfer_completed''), (''transfer_id'', transfer_id),
                     (''status'', JStr ''completed'')]
                    (s\<lparr>w_transfers := (w_transfers s)(k \<mapsto>
                        t\<lparr>wt_status := ''completed'', wt_progress := JInt 100\<rparr>)\<rparr>)))"

definition w_handle_message ::
  "string \<Rightarrow> pydict \<Rightarrow> websocket \<Rightarrow> string \<Rightarrow> work_state \<Rightarrow> error option \<times> work_state" where
  "w_handle_message client_id message websocket uuid s =
     (let message_type = dict_get message ''type''
      in if message_type = JStr ''ping''
         then (None, w_send_text websocket
                 [(''type'', JStr ''pong''), (''timestamp'', dict_get message ''timestamp'')] s)
         else if message_type = JStr ''file_transfer_start''
         then w_handle_file_transfer_start client_id message websocket uuid s
         else if message_type = JStr ''file_chunk''
         then w_handle_file_chunk client_id message websocket s
         else if message_type = JStr ''chunk_ack''
         then w_handle_chunk_ack client_id message websocket s
         else if message_type = JStr ''transfer_complete''
         then w_handle_transfer_complete client_id message websocket s
         else (None, s))"


section \<open>Concrete states and messages\<close>

text \<open>Two clients \<open>alice\<close> and \<open>bob\<close> on sockets 1 and 2 (and, in \<open>st1\<close>, a third client
  \<open>mallory\<close> on socket 3), a file of one chunk, and a pending transfer from \<open>alice\<close> to
  \<open>bob\<close>. They are the inputs at which the theorems below are evaluated.\<close>

definition file0 :: json where
  "file0 = JObj [(''name'', JStr ''x.pdf''), (''size'', JInt 1000), (''total_chunks'', JInt 1)]"

definition st0 :: main_state where
  "st0 = \<lparr>m_active_connections = [''alice'' \<mapsto> 1, ''bob'' \<mapsto> 2],
          m_transfers = Map.empty, m_outbox = []\<rparr>"

definition tr1 :: transfer where
  "tr1 = \<lparr>t_id = ''t1'', t_file_info = file0, t_sender_id = ''alice'',
          t_receiver_id = JStr ''bob'', t_status = ''pending'', t_progress = JInt 0,
          t_chunks_received = 0, t_total_chunks = JInt 1, t_created_at = ''2025-01-01T00:00:00''\<rparr>"

definition st1 :: main_state where
  "st1 = \<lparr>m_active_connections = [''alice'' \<mapsto> 1, ''bob'' \<mapsto> 2, ''mallory'' \<mapsto> 3],
          m_transfers = [''t1'' \<mapsto> tr1], m_outbox = []\<rparr>"

definition u0 :: ult_state where
  "u0 = \<lparr>u_active_connections = [''alice'' \<mapsto> 1, ''bob'' \<mapsto> 2],
         u_webrtc_connections = Map.empty, u_device_capabilities = Map.empty,
         u_active_streams =
           [''t1'' \<mapsto> JObj [(''stream_id'', JStr ''t1''), (''status'', JStr ''initialized'')] ],
         u_outbox = []\<rparr>"

definition chunk0 :: pydict where
  "chunk0 = [(''type'', JStr ''file_chunk''), (''transfer_id'', JStr ''t1''),
     (''chunk_data'', JStr ''AAAA''), (''chunk_index'', JInt 0), (''total_chunks'', JInt 0)]"

definition w0 :: work_state where
  "w0 = \<lparr>w_active_connections = [''alice'' \<mapsto> 1, ''bob'' \<mapsto> 2],
         w_transfers = Map.empty, w_outbox = []\<rparr>"

definition ping0 :: pydict where
  "ping0 = [(''type'', JStr ''ping''), (''timestamp'', JInt 1700000000)]"

definition start_carol :: pydict where
  "start_carol = [(''type'', JStr ''file_transfer_start''), (''receiver_id'', JStr ''carol''),
                  (''file_info'', file0)]"

definition ack0 :: pydict where
  "ack0 = [(''type'', JStr ''chunk_ack''), (''transfer_id'', JStr ''t1''), (''chunk_index'', JInt 0),
           (''received_progress'', JInt 100)]"

definition complete0 :: pydict where
  "complete0 = [(''type'', JStr ''transfer_complete''), (''transfer_id'', JStr ''t1'')]"

definition pm0 :: p2p_manager where
  "pm0 = \<lparr>pm_webrtc_manager =
            \<lparr>wm_active_connections = Map.empty, wm_pending_offers = Map.empty,
             wm_pending_answers = Map.empty, wm_ice_candidates = Map.empty\<rparr>,
          pm_active_transfers = Map.empty, pm_transfer_stats = Map.empty\<rparr>"

definition adv1 :: adv_state where
  "adv1 = \<lparr>a_active_connections = [''alice'' \<mapsto> 1, ''bob'' \<mapsto> 2, ''mallory'' \<mapsto> 3],
           a_client_info = [''alice'' \<mapsto> JObj [], ''bob'' \<mapsto> JObj [], ''mallory'' \<mapsto> JObj [] ],
           a_p2p = snd (start_transfer ''alice'' (JStr ''bob'') file0 ''t1'' ''c1''
                          ''2025-01-01T00:00:00'' pm0),
           a_outbox = []\<rparr>"

definition progress_low :: pydict where
  "progress_low = [(''type'', JStr ''transfer_progress''), (''transfer_id'', JStr ''t1''),
                   (''progress'', JInt (- 5))]"

definition progress_high :: pydict where
  "progress_high = [(''type'', JStr ''transfer_progress''), (''transfer_id'', JStr ''t1''),
                    (''progress'', JInt 150)]"

definition completed_note :: "json \<Rightarrow> pydict" where
  "completed_note transfer_id =
     [(''type'', JStr ''transfer_completed''), (''transfer_id'', transfer_id),
      (''status'', JStr ''completed'')]"


definition offer_c1 :: pydict where
  "offer_c1 = [(''type'', JStr ''webrtc_offer''), (''connection_id'', JStr ''c1''),
     (''offer'', JObj [(''type'', JStr ''offer''), (''sdp'', JStr ''v=0'')])]"

definition sdp_answer :: json where
  "sdp_answer = JObj [(''type'', JStr ''answer''), (''sdp'', JStr ''v=0'')]"

definition answer_c1 :: pydict where
  "answer_c1 = [(''type'', JStr ''webrtc_answer''), (''connection_id'', JStr ''c1''),
     (''answer'', sdp_answer)]"

definition u_answer :: pydict where
  "u_answer = [(''type'', JStr ''webrtc_answer''), (''target_client'', JStr ''alice''),
     (''answer'', sdp_answer)]"







definition answer_c9 :: pydict where
  "answer_c9 = [(''type'', JStr ''webrtc_answer''), (''connection_id'', JStr ''c9''),
     (''answer'', sdp_answer)]"




section \<open>Disconnecting an endpoint\<close>

lemma m_disconnect_twice: "m_disconnect c (m_disconnect c s) = m_disconnect c s"
  by (simp add: m_disconnect_def)

lemma u_disconnect_twice: "u_disconnect c (u_disconnect c s) = u_disconnect c s"
  by (simp add: u_disconnect_def Let_def)

text \<open>
  Claim C1 says that a disconnect moves every non-terminal transfer of the endpoint to
  cancelled or failed and notifies the surviving peer exactly once. In \<^verbatim>\<open>main.py\<close> the
  pending transfer \<open>t1\<close> of \<open>alice\<close> is still pending after \<open>alice\<close> disconnects (also
  through the receive loop, when her socket closes), and nothing at all is sent.
\<close>

theorem C1_counterexample:
  "map_option t_sender_id (m_transfers st1 ''t1'') = Some ''alice''
   \<and> map_option t_status (m_transfers st1 ''t1'') = Some ''pending''
   \<and> map_option t_status (m_transfers (m_disconnect ''alice'' st1) ''t1'') = Some ''pending''
   \<and> m_outbox (m_disconnect ''alice'' st1) = []
   \<and> receive_loop ''alice'' 1 [] st1 = m_disconnect ''alice'' st1"
  by (simp add: st1_def tr1_def m_disconnect_def)

text \<open>
  Claim C1, as amended: \<^verbatim>\<open>ConnectionManager.disconnect\<close> (in \<^verbatim>\<open>main.py\<close> and in
  \<^verbatim>\<open>ultimate_main.py\<close>) only removes the endpoint from the registry. Every transfer (every
  stream) is left as it was, no message is sent to anyone, and a second disconnect of the same
  endpoint changes nothing.
\<close>

theorem C1_disconnect_only_deregisters:
  "m_transfers (m_disconnect c s) = m_transfers s
   \<and> m_outbox (m_disconnect c s) = m_outbox s
   \<and> m_active_connections (m_disconnect c s) = (m_active_connections s)(c := None)
   \<and> m_disconnect c (m_disconnect c s) = m_disconnect c s
   \<and> u_active_streams (u_disconnect c u) = u_active_streams u
   \<and> u_outbox (u_disconnect c u) = u_outbox u
   \<and> u_active_connections (u_disconnect c u) = (u_active_connections u)(c := None)
   \<and> u_disconnect c (u_disconnect c u) = u_disconnect c u"
proof -
  have "(m_active_connections s)(c := None) = m_active_connections s"
    if "m_active_connections s c = None"
    using that by (simp add: fun_upd_idem)
  then have "m_active_connections (m_disconnect c s) = (m_active_connections s)(c := None)"
    by (simp add: m_disconnect_def)
  moreover have "(u_active_connections u)(c := None) = u_active_connections u"
    if "u_active_connections u c = None"
    using that by (simp add: fun_upd_idem)
  then have "u_active_connections (u_disconnect c u) = (u_active_connections u)(c := None)"
    by (simp add: u_disconnect_def Let_def)
  ultimately show ?thesis
    by (simp add: m_disconnect_twice u_disconnect_twice)
       (simp add: m_disconnect_def u_disconnect_def Let_def)
qed

theorem C1_witness:
  "m_transfers (m_disconnect ''alice'' st1) = [''t1'' \<mapsto> tr1]
   \<and> m_active_connections (m_disconnect ''alice'' st1) ''alice'' = None
   \<and> m_active_connections (m_disconnect ''alice'' st1) ''bob'' = Some 2
   \<and> m_disconnect ''alice'' (m_disconnect ''alice'' st1) = m_disconnect ''alice'' st1
   \<and> u_active_streams (u_disconnect ''alice'' u0) = u_active_streams u0
   \<and> u_active_connections (u_disconnect ''alice'' u0) ''alice'' = None"
  using C1_disconnect_only_deregisters [of "''alice''" st1 u0] by (simp add: st1_def)


section \<open>A chunk without a usable \<^verbatim>\<open>total_chunks\<close>\<close>

lemma handle_file_chunk_raises:
  assumes "truthy (dict_get message ''transfer_id'')"
    and "truthy (dict_get message ''chunk_data'')"
    and "dict_get message ''chunk_index'' \<noteq> JNone"
    and "dict_get message ''total_chunks'' = JInt 0 \<or> dict_get message ''total_chunks'' = JNone"
  shows "\<exists>e. handle_file_chunk client_id message websocket s = (Some e, s)
              \<and> (e = ZeroDivisionError \<or> e = TypeError)"
  using assms
  by (auto simp: handle_file_chunk_def chunk_progress_def Let_def split: option.splits)

text \<open>
  Claim C10: a \<^verbatim>\<open>file_chunk\<close> message of \<^verbatim>\<open>main.py\<close> that passes the guard (a truthy
  \<^verbatim>\<open>transfer_id\<close> and \<^verbatim>\<open>chunk_data\<close>, a \<^verbatim>\<open>chunk_index\<close> that is not \<^verbatim>\<open>None\<close>) and whose
  \<^verbatim>\<open>total_chunks\<close> is 0 or absent raises in the handler (\<^verbatim>\<open>ZeroDivisionError\<close>, or
  \<^verbatim>\<open>TypeError\<close> for the division by \<^verbatim>\<open>None\<close>) before anything is stored or sent. The
  receive loop catches it, deregisters the client and stops reading its frames; no error
  reply is produced.
\<close>

theorem C10_chunk_without_total_tears_down:
  assumes "dict_get message ''type'' = JStr ''file_chunk''"
    and "truthy (dict_get message ''transfer_id'')"
    and "truthy (dict_get message ''chunk_data'')"
    and "dict_get message ''chunk_index'' \<noteq> JNone"
    and "dict_get message ''total_chunks'' = JInt 0 \<or> dict_get message ''total_chunks'' = JNone"
  shows "(\<exists>e. handle_file_chunk client_id message websocket s = (Some e, s)
              \<and> (e = ZeroDivisionError \<or> e = TypeError))
       \<and> receive_loop client_id websocket ((Decoded (JObj message), uuid, now) # rest) s
           = m_disconnect client_id s
       \<and> m_active_connections (m_disconnect client_id s) client_id = None
       \<and> m_outbox (m_disconnect client_id s) = m_outbox s"
proof -
  from handle_file_chunk_raises [OF assms(2-5)]
  obtain e where e: "handle_file_chunk client_id message websocket s = (Some e, s)"
    and k: "e = ZeroDivisionError \<or> e = TypeError" by blast
  have "handle_websocket_message client_id message websocket uuid now s = (Some e, s)"
    using assms(1) e by (simp add: handle_websocket_message_def)
  then have "receive_loop client_id websocket ((Decoded (JObj message), uuid, now) # rest) s
           = m_disconnect client_id s" by simp
  moreover have "m_active_connections (m_disconnect client_id s) client_id = None"
    by (simp add: m_disconnect_def)
  moreover have "m_outbox (m_disconnect client_id s) = m_outbox s"
    by (simp add: m_disconnect_def)
  ultimately show ?thesis using e k by blast
qed

theorem C10_witness:
  "handle_file_chunk ''alice'' chunk0 1 st0 = (Some ZeroDivisionError, st0)
   \<and> receive_loop ''alice'' 1
        [(Decoded (JObj chunk0), ''u1'', ''n1''), (Decoded (JObj chunk0), ''u2'', ''n2'')] st0
       = m_disconnect ''alice'' st0
   \<and> m_active_connections (m_disconnect ''alice'' st0) ''alice'' = None
   \<and> m_outbox (m_disconnect ''alice'' st0) = []"
  using C10_chunk_without_total_tears_down
          [of chunk0 "''alice''" 1 st0 "''u1''" "''n1''" "[(Decoded (JObj chunk0), ''u2'', ''n2'')]"]
  by (simp add: chunk0_def dict_get_def st0_def handle_file_chunk_def chunk_progress_def Let_def)


section \<open>Liveness: \<^verbatim>\<open>ping\<close> and \<^verbatim>\<open>pong\<close>\<close>

text \<open>
  Claim C9 says that the pong carries the ping's timestamp plus the server's own time. In
  \<^verbatim>\<open>main.py\<close> and in \<^verbatim>\<open>working_server.py\<close> the reply to a ping has the two keys
  \<^verbatim>\<open>type\<close> and \<^verbatim>\<open>timestamp\<close> and no server time.
\<close>

theorem C9_counterexample:
  "handle_websocket_message ''alice'' ping0 1 ''u1'' ''n1'' st0
     = (None, st0\<lparr>m_outbox := [(1, [(''type'', JStr ''pong''), (''timestamp'', JInt 1700000000)])]\<rparr>)
   \<and> map_of [(''type'', JStr ''pong''), (''timestamp'', JInt 1700000000)] ''server_time'' = None
   \<and> w_handle_message ''alice'' ping0 1 ''u1'' w0
     = (None, w0\<lparr>w_outbox := [(1, [(''type'', JStr ''pong''), (''timestamp'', JInt 1700000000)])]\<rparr>)"
  by (simp add: handle_websocket_message_def w_handle_message_def ping0_def st0_def w0_def dict_get_def
      m_send_text_def w_send_text_def)

text \<open>
  Claim C9, as amended: for every ping, \<^verbatim>\<open>main.py\<close> and \<^verbatim>\<open>working_server.py\<close> send
  exactly one message, to the socket the ping came from: a pong with the ping's timestamp
  and nothing else. Registry and transfers are as before, and nothing is raised.
\<close>

theorem C9_pong_echoes_timestamp:
  assumes "dict_get message ''type'' = JStr ''ping''"
  shows "handle_websocket_message client_id message websocket uuid now s
           = (None, s\<lparr>m_outbox := m_outbox s @
                [(websocket, [(''type'', JStr ''pong''),
                              (''timestamp'', dict_get message ''timestamp'')])]\<rparr>)
       \<and> w_handle_message client_id message websocket uuid w
           = (None, w\<lparr>w_outbox := w_outbox w @
                [(websocket, [(''type'', JStr ''pong''),
                              (''timestamp'', dict_get message ''timestamp'')])]\<rparr>)"
  using assms
  by (simp add: handle_websocket_message_def w_handle_message_def m_send_text_def w_send_text_def)

theorem C9_witness:
  "dict_get ping0 ''type'' = JStr ''ping''
   \<and> fst (handle_websocket_message ''alice'' ping0 1 ''u1'' ''n1'' st1) = None
   \<and> m_outbox (snd (handle_websocket_message ''alice'' ping0 1 ''u1'' ''n1'' st1))
       = [(1, [(''type'', JStr ''pong''), (''timestamp'', JInt 1700000000)])]
   \<and> m_transfers (snd (handle_websocket_message ''alice'' ping0 1 ''u1'' ''n1'' st1)) = m_transfers st1
   \<and> m_active_connections (snd (handle_websocket_message ''alice'' ping0 1 ''u1'' ''n1'' st1))
       = m_active_connections st1
   \<and> w_outbox (snd (w_handle_message ''alice'' ping0 1 ''u1'' w0))
       = [(1, [(''type'', JStr ''pong''), (''timestamp'', JInt 1700000000)])]"
  using C9_pong_echoes_timestamp [of ping0 "''alice''" 1 "''u1''" "''n1''" st1 w0]
  by (simp add: ping0_def dict_get_def st1_def w0_def)


section \<open>Acknowledgements and completion\<close>

lemma m_send_to_client_transfers:
  "m_transfers (snd (m_send_to_client c msg s)) = m_transfers s"
  by (simp add: m_send_to_client_def m_send_text_def split: sum.splits option.splits)

lemma handle_chunk_ack_transfers:
  "m_transfers (snd (handle_chunk_ack client_id message websocket s)) = m_transfers s"
  by (simp add: handle_chunk_ack_def Let_def m_send_to_client_transfers split: sum.splits option.splits)

lemma update_progress_status:
  "map_option t_status (m_transfers (snd (update_progress tid p s)) k) = map_option t_status (m_transfers s k)"
  by (simp add: update_progress_def split: sum.splits option.splits)

lemma m_send_text_transfers: "m_transfers (m_send_text ws msg s) = m_transfers s"
  by (simp add: m_send_text_def)

lemma and_then_cases:
  "and_then r f = (case fst r of None \<Rightarrow> f (snd r) | Some e \<Rightarrow> (Some e, snd r))"
  by (cases r) (simp add: and_then_def split: option.splits)

lemma handle_file_chunk_status:
  "map_option t_status (m_transfers (snd (handle_file_chunk client_id message websocket s)) k)
     = map_option t_status (m_transfers s k)"
  unfolding handle_file_chunk_def Let_def and_then_cases
  by (auto simp: m_send_text_transfers m_send_to_client_transfers update_progress_status
      split: sum.splits option.splits)

lemma handle_file_transfer_start_status:
  assumes "map_option t_status (m_transfers (snd (handle_file_transfer_start client_id message websocket uuid now s)) k) = Some ''completed''"
  shows "map_option t_status (m_transfers s k) = Some ''completed''"
  using assms
  unfolding handle_file_transfer_start_def Let_def and_then_cases create_transfer_def
  by (auto simp: m_send_text_transfers m_send_to_client_transfers
        split: sum.splits option.splits json.splits if_splits)


lemma handle_transfer_complete_completes:
  assumes "m_transfers s k = Some t" and "dict_get message ''transfer_id'' = JStr k"
  shows "map_option t_status (m_transfers (snd (handle_transfer_complete client_id message websocket s)) k)
           = Some ''completed''"
  using assms
  by (simp add: handle_transfer_complete_def Let_def m_send_to_client_transfers complete_transfer_def)

lemma dispatch_completed_only:
  assumes c: "map_option t_status
             (m_transfers (snd (handle_websocket_message client_id message websocket uuid now s)) k)
           = Some ''completed''"
    and n: "map_option t_status (m_transfers s k) \<noteq> Some ''completed''"
  shows "dict_get message ''type'' = JStr ''transfer_complete''"
proof (rule ccontr)
  let ?ty = "dict_get message ''type''"
  let ?r = "handle_websocket_message client_id message websocket uuid now s"
  assume nt: "?ty \<noteq> JStr ''transfer_complete''"
  consider (ping) "?ty = JStr ''ping''"
    | (start) "?ty = JStr ''file_transfer_start''"
    | (chunk) "?ty = JStr ''file_chunk''"
    | (ack) "?ty = JStr ''chunk_ack''"
    | (other) "?ty \<noteq> JStr ''ping''" "?ty \<noteq> JStr ''file_transfer_start''"
        "?ty \<noteq> JStr ''file_chunk''" "?ty \<noteq> JStr ''chunk_ack''"
    by blast
  then show False
  proof cases
    case ping
    then have "m_transfers (snd ?r) = m_transfers s"
      by (simp add: handle_websocket_message_def m_send_text_transfers)
    with c n show False by simp
  next
    case start
    then have "?r = handle_file_transfer_start client_id message websocket uuid now s"
      by (simp add: handle_websocket_message_def)
    with c have "map_option t_status (m_transfers s k) = Some ''completed''"
      using handle_file_transfer_start_status by simp
    with n show False by simp
  next
    case chunk
    then have "?r = handle_file_chunk client_id message websocket s"
      by (simp add: handle_websocket_message_def)
    with c n show False
      by (simp add: handle_file_chunk_status del: map_option_eq_Some)
  next
    case ack
    then have "?r = handle_chunk_ack client_id message websocket s"
      by (simp add: handle_websocket_message_def)
    with c n show False
      by (simp add: handle_chunk_ack_transfers del: map_option_eq_Some)
  next
    case other
    with nt have "?r = (None, s)"
      by (simp add: handle_websocket_message_def)
    with c n show False by simp
  qed
qed

text \<open>
  Claim C5: in \<^verbatim>\<open>main.py\<close>, \<^verbatim>\<open>handle_chunk_ack\<close> leaves the transfer map as it is, for
  every acknowledgement (also the one for the last chunk), directly and through the
  dispatcher; whenever handling a message makes the status of a transfer \<open>completed\<close> that
  was not so before, the message is a \<^verbatim>\<open>transfer_complete\<close>; and a \<^verbatim>\<open>transfer_complete\<close>
  naming a known transfer does make its status \<open>completed\<close>.
\<close>

theorem C5_only_transfer_complete_completes:
  "m_transfers (snd (handle_chunk_ack client_id ack websocket s)) = m_transfers s
   \<and> (dict_get ack ''type'' = JStr ''chunk_ack'' \<longrightarrow>
        m_transfers (snd (handle_websocket_message client_id ack websocket uuid now s)) = m_transfers s)
   \<and> (map_option t_status
         (m_transfers (snd (handle_websocket_message client_id message websocket uuid now s)) k)
         = Some ''completed''
       \<and> map_option t_status (m_transfers s k) \<noteq> Some ''completed''
       \<longrightarrow> dict_get message ''type'' = JStr ''transfer_complete'')
   \<and> (m_transfers s k = Some t \<and> dict_get message ''type'' = JStr ''transfer_complete''
       \<and> dict_get message ''transfer_id'' = JStr k
       \<longrightarrow> map_option t_status
             (m_transfers (snd (handle_websocket_message client_id message websocket uuid now s)) k)
             = Some ''completed'')"
proof -
  have a: "dict_get ack ''type'' = JStr ''chunk_ack'' \<longrightarrow>
        m_transfers (snd (handle_websocket_message client_id ack websocket uuid now s)) = m_transfers s"
    by (simp add: handle_websocket_message_def handle_chunk_ack_transfers)
  have b: "m_transfers s k = Some t \<and> dict_get message ''type'' = JStr ''transfer_complete''
       \<and> dict_get message ''transfer_id'' = JStr k
       \<longrightarrow> map_option t_status
             (m_transfers (snd (handle_websocket_message client_id message websocket uuid now s)) k)
             = Some ''completed''"
    by (simp add: handle_websocket_message_def handle_transfer_complete_completes)
  show ?thesis
    using a b dispatch_completed_only [of client_id message websocket uuid now s k]
      handle_chunk_ack_transfers [of client_id ack websocket s]
    by blast
qed

theorem C5_witness:
  "dict_get ack0 ''type'' = JStr ''chunk_ack''
   \<and> m_transfers (snd (handle_websocket_message ''bob'' ack0 2 ''u1'' ''n1'' st1)) = m_transfers st1
   \<and> m_outbox (snd (handle_websocket_message ''bob'' ack0 2 ''u1'' ''n1'' st1)) = [(1, ack0)]
   \<and> map_option t_status (m_transfers st1 ''t1'') = Some ''pending''
   \<and> dict_get complete0 ''type'' = JStr ''transfer_complete''
   \<and> map_option t_status
        (m_transfers (snd (handle_websocket_message ''bob'' complete0 2 ''u1'' ''n1'' st1)) ''t1'')
       = Some ''completed''"
  using C5_only_transfer_complete_completes [of "''bob''" ack0 2 st1 "''u1''" "''n1''" complete0 "''t1''" tr1]
  by (simp add: ack0_def complete0_def dict_get_def dict_get_or_def st1_def tr1_def
        handle_websocket_message_def handle_chunk_ack_def handle_transfer_complete_def
        complete_transfer_def m_send_to_client_def m_send_text_def Let_def)


section \<open>Starting a transfer to an unregistered receiver\<close>

text \<open>
  Claim C2 says that \<^verbatim>\<open>file_transfer_start\<close> to an unregistered receiver fails with
  UnknownPeer and creates no record. In \<^verbatim>\<open>main.py\<close>, \<open>alice\<close> starting a transfer to the
  unregistered \<open>carol\<close> raises nothing, stores a pending transfer to \<open>carol\<close> under the new
  id, and gets \<^verbatim>\<open>transfer_started\<close> as the only message sent.
\<close>

theorem C2_counterexample:
  "m_active_connections st0 ''carol'' = None
   \<and> fst (handle_file_transfer_start ''alice'' start_carol 1 ''u1'' ''n1'' st0) = None
   \<and> map_option t_status
        (m_transfers (snd (handle_file_transfer_start ''alice'' start_carol 1 ''u1'' ''n1'' st0)) ''u1'')
       = Some ''pending''
   \<and> map_option t_receiver_id
        (m_transfers (snd (handle_file_transfer_start ''alice'' start_carol 1 ''u1'' ''n1'' st0)) ''u1'')
       = Some (JStr ''carol'')
   \<and> m_outbox (snd (handle_file_transfer_start ''alice'' start_carol 1 ''u1'' ''n1'' st0))
       = [(1, [(''type'', JStr ''transfer_started''), (''transfer_id'', JStr ''u1''),
               (''status'', JStr ''pending'')])]"
  by (simp add: handle_file_transfer_start_def start_carol_def st0_def file0_def dict_get_def
        dict_get_or_def Let_def and_then_def create_transfer_def m_send_to_client_def m_send_text_def)

text \<open>
  Claim C2, as amended: a \<^verbatim>\<open>file_transfer_start\<close> whose \<^verbatim>\<open>receiver_id\<close> is a non-empty
  string that is not registered, and whose \<^verbatim>\<open>file_info\<close> is a dict (or absent), does not
  fail in \<^verbatim>\<open>main.py\<close> or \<^verbatim>\<open>working_server.py\<close>: a transfer in status \<open>pending\<close> is stored
  under the new id, nothing is sent to the receiver, and the sender gets
  \<^verbatim>\<open>transfer_started\<close>.
\<close>

theorem C2_start_to_unregistered_receiver:
  assumes "dict_get message ''receiver_id'' = JStr r" and "r \<noteq> []"
    and "dict_get_or message ''file_info'' (JObj []) = JObj fi"
    and "m_active_connections s r = None" and "w_active_connections w r = None"
  shows "handle_file_transfer_start client_id message websocket uuid now s
           = (None,
              s\<lparr>m_transfers := (m_transfers s)(uuid \<mapsto>
                   \<lparr>t_id = uuid, t_file_info = JObj fi, t_sender_id = client_id,
                    t_receiver_id = JStr r, t_status = ''pending'', t_progress = JInt 0,
                    t_chunks_received = 0,
                    t_total_chunks = dict_get_or fi ''total_chunks'' (JInt 0),
                    t_created_at = now\<rparr>),
                m_outbox := m_outbox s @
                   [(websocket, [(''type'', JStr ''transfer_started''), (''transfer_id'', JStr uuid),
                                 (''status'', JStr ''pending'')])]\<rparr>)
       \<and> w_handle_file_transfer_start client_id message websocket uuid w
           = (None,
              w\<lparr>w_transfers := (w_transfers w)(uuid \<mapsto>
                   \<lparr>wt_id = uuid, wt_file_info = JObj fi, wt_sender_id = client_id,
                    wt_receiver_id = JStr r, wt_status = ''pending'', wt_progress = JInt 0,
                    wt_chunks_received = JInt 0,
                    wt_total_chunks = dict_get_or fi ''total_chunks'' (JInt 0)\<rparr>),
                w_outbox := w_outbox w @
                   [(websocket, [(''type'', JStr ''transfer_started''), (''transfer_id'', JStr uuid),
                                 (''status'', JStr ''pending'')])]\<rparr>)"
  using assms
  by (simp add: handle_file_transfer_start_def w_handle_file_transfer_start_def Let_def and_then_def
        create_transfer_def m_send_to_client_def w_send_to_client_def m_send_text_def w_send_text_def)

theorem C2_witness:
  "dict_get start_carol ''receiver_id'' = JStr ''carol''
   \<and> m_active_connections st0 ''carol'' = None \<and> w_active_connections w0 ''carol'' = None
   \<and> fst (handle_file_transfer_start ''alice'' start_carol 1 ''u1'' ''n1'' st0) = None
   \<and> dom (m_transfers (snd (handle_file_transfer_start ''alice'' start_carol 1 ''u1'' ''n1'' st0)))
       = {''u1''}
   \<and> dom (w_transfers (snd (w_handle_file_transfer_start ''alice'' start_carol 1 ''u1'' w0)))
       = {''u1''}"
  using C2_start_to_unregistered_receiver [of start_carol "''carol''" "[(''name'', JStr ''x.pdf''), (''size'', JInt 1000), (''total_chunks'', JInt 1)]"
               st0 w0 "''alice''" 1 "''u1''" "''n1''"]
  by (simp add: start_carol_def file0_def dict_get_def dict_get_or_def st0_def w0_def)


section \<open>Reported progress\<close>

text \<open>Unfolding the concrete state of \<^verbatim>\<open>advanced_server.py\<close>.\<close>

lemmas adv1_eval = adv1_def pm0_def start_transfer_def initiate_connection_def file0_def
  dict_get_def dict_get_or_def Let_def

text \<open>
  Claim C6 says that a reported progress is clamped into the range from 0 to 100, so that
  \<open>-5\<close> is stored as 0 and 150 as 100. \<^verbatim>\<open>handle_transfer_progress\<close> of
  \<^verbatim>\<open>advanced_server.py\<close> stores \<open>-5\<close> as \<open>-5\<close> and 150 as 150.
\<close>

theorem C6_counterexample:
  "map_option p_progress
     (pm_active_transfers (a_p2p (snd (a_handle_transfer_progress ''alice'' progress_low 1 adv1))) ''t1'')
     = Some (JInt (- 5))
   \<and> map_option p_progress
     (pm_active_transfers (a_p2p (snd (a_handle_transfer_progress ''alice'' progress_high 1 adv1))) ''t1'')
     = Some (JInt 150)"
  by (simp add: adv1_eval progress_low_def progress_high_def a_handle_transfer_progress_def
        update_transfer_progress_def)

text \<open>
  Claim C6, as amended: for a known transfer, \<^verbatim>\<open>handle_transfer_progress\<close> and
  \<^verbatim>\<open>P2PTransferManager.update_transfer_progress\<close> store the reported progress value exactly
  as it was reported, whatever it is; nothing is raised and nothing is sent.
\<close>

theorem C6_progress_stored_as_reported:
  assumes "dict_get message ''transfer_id'' = JStr k"
    and "pm_active_transfers (a_p2p s) k = Some t"
  shows "fst (a_handle_transfer_progress client_id message websocket s) = None
       \<and> map_option p_progress
           (pm_active_transfers (a_p2p (snd (a_handle_transfer_progress client_id message websocket s))) k)
           = Some (dict_get message ''progress'')
       \<and> a_outbox (snd (a_handle_transfer_progress client_id message websocket s)) = a_outbox s
       \<and> fst (update_transfer_progress (JStr k) progress chunks_sent chunks_received (a_p2p s)) = None
       \<and> map_option p_progress
           (pm_active_transfers
              (snd (update_transfer_progress (JStr k) progress chunks_sent chunks_received (a_p2p s))) k)
           = Some progress"
  using assms
  by (simp add: a_handle_transfer_progress_def update_transfer_progress_def Let_def
        split: option.splits)

theorem C6_witness:
  "dict_get progress_low ''transfer_id'' = JStr ''t1''
   \<and> pm_active_transfers (a_p2p adv1) ''t1'' \<noteq> None
   \<and> fst (a_handle_transfer_progress ''alice'' progress_low 1 adv1) = None
   \<and> map_option p_progress
        (pm_active_transfers (a_p2p (snd (a_handle_transfer_progress ''alice'' progress_low 1 adv1))) ''t1'')
       = Some (JInt (- 5))
   \<and> a_outbox (snd (a_handle_transfer_progress ''alice'' progress_low 1 adv1)) = []
   \<and> map_option p_progress
        (pm_active_transfers
           (snd (update_transfer_progress (JStr ''t1'') (JInt 150) JNone JNone (a_p2p adv1))) ''t1'')
       = Some (JInt 150)"
  using C6_progress_stored_as_reported [of progress_low "''t1''" adv1 "the (pm_active_transfers (a_p2p adv1) ''t1'')" "''alice''" 1
               "JInt 150" JNone JNone]
  by (simp add: adv1_eval progress_low_def)


section \<open>Completing a transfer\<close>

text \<open>
  Claim C7 says that \<^verbatim>\<open>transfer_complete\<close> moves the transfer from active to completed,
  notifies sender and receiver, and is a no-op when repeated. In \<^verbatim>\<open>main.py\<close> the transfer
  \<open>t1\<close> goes from \<open>pending\<close> to \<open>completed\<close>, the only message goes to the sender's socket 1
  although the receiver \<open>bob\<close> is registered on socket 2, and a second \<^verbatim>\<open>transfer_complete\<close>
  sends the notification again.
\<close>

theorem C7_counterexample:
  "map_option t_status (m_transfers st1 ''t1'') = Some ''pending''
   \<and> map_option t_receiver_id (m_transfers st1 ''t1'') = Some (JStr ''bob'')
   \<and> m_active_connections st1 ''bob'' = Some 2
   \<and> map_option t_status
        (m_transfers (snd (handle_transfer_complete ''alice'' complete0 1 st1)) ''t1'')
       = Some ''completed''
   \<and> m_outbox (snd (handle_transfer_complete ''alice'' complete0 1 st1))
       = [(1, completed_note (JStr ''t1''))]
   \<and> m_outbox (snd (handle_transfer_complete ''alice'' complete0 1
                       (snd (handle_transfer_complete ''alice'' complete0 1 st1))))
       = [(1, completed_note (JStr ''t1'')), (1, completed_note (JStr ''t1''))]"
  by (simp add: st1_def tr1_def complete0_def completed_note_def handle_transfer_complete_def
        complete_transfer_def m_send_to_client_def m_send_text_def dict_get_def Let_def)

lemma handle_transfer_complete_known:
  assumes "dict_get message ''transfer_id'' = JStr k"
    and "m_transfers s k = Some t"
    and "m_active_connections s (t_sender_id t) = Some ws_sender"
  shows "handle_transfer_complete client_id message websocket s
           = (None,
              s\<lparr>m_transfers := (m_transfers s)(k \<mapsto>
                   t\<lparr>t_status := ''completed'', t_progress := JInt 100\<rparr>),
                m_outbox := m_outbox s @ [(ws_sender, completed_note (JStr k))]\<rparr>)"
  using assms
  by (simp add: handle_transfer_complete_def complete_transfer_def m_send_to_client_def
        m_send_text_def completed_note_def Let_def)

lemma a_handle_transfer_complete_known:
  assumes "dict_get message ''transfer_id'' = JStr k"
    and "pm_active_transfers (a_p2p a) k = Some p"
    and "a_active_connections a (p_sender_id p) = Some wa_sender"
    and "p_receiver_id p = JStr rid"
    and "a_active_connections a rid = Some wa_receiver"
  shows "a_handle_transfer_complete client_id message websocket now a
           = (None,
              a\<lparr>a_p2p := (a_p2p a)\<lparr>pm_active_transfers := (pm_active_transfers (a_p2p a))(k \<mapsto>
                   p\<lparr>p_status := ''completed'', p_progress := JFloat 100,
                     p_completed_at := Some now\<rparr>)\<rparr>,
                a_outbox := a_outbox a @
                   [(wa_sender, completed_note (JStr k)), (wa_receiver, completed_note (JStr k))]\<rparr>)"
  using assms
  by (simp add: a_handle_transfer_complete_def p2p_complete_transfer_def a_send_to_client_def
        a_send_text_def completed_note_def and_then_def Let_def)

text \<open>
  Claim C7, as amended: a \<^verbatim>\<open>transfer_complete\<close> naming a known transfer sets its status to
  \<open>completed\<close> and its progress to 100 whatever the status was before. \<^verbatim>\<open>main.py\<close> then
  notifies the sender only; \<^verbatim>\<open>advanced_server.py\<close> notifies the sender and the receiver. A
  repeated \<^verbatim>\<open>transfer_complete\<close> leaves status and progress as they are and sends the same
  notifications once more.
\<close>

theorem C7_complete_notifies_and_repeats:
  assumes "dict_get message ''transfer_id'' = JStr k"
    and "m_transfers s k = Some t"
    and "m_active_connections s (t_sender_id t) = Some ws_sender"
    and "pm_active_transfers (a_p2p a) k = Some p"
    and "a_active_connections a (p_sender_id p) = Some wa_sender"
    and "p_receiver_id p = JStr rid"
    and "a_active_connections a rid = Some wa_receiver"
  shows "handle_transfer_complete client_id message websocket s
           = (None,
              s\<lparr>m_transfers := (m_transfers s)(k \<mapsto>
                   t\<lparr>t_status := ''completed'', t_progress := JInt 100\<rparr>),
                m_outbox := m_outbox s @ [(ws_sender, completed_note (JStr k))]\<rparr>)
       \<and> handle_transfer_complete client_id message websocket
            (snd (handle_transfer_complete client_id message websocket s))
           = (None,
              s\<lparr>m_transfers := (m_transfers s)(k \<mapsto>
                   t\<lparr>t_status := ''completed'', t_progress := JInt 100\<rparr>),
                m_outbox := m_outbox s @
                   [(ws_sender, completed_note (JStr k)), (ws_sender, completed_note (JStr k))]\<rparr>)
       \<and> a_handle_transfer_complete client_id message websocket now a
           = (None,
              a\<lparr>a_p2p := (a_p2p a)\<lparr>pm_active_transfers := (pm_active_transfers (a_p2p a))(k \<mapsto>
                   p\<lparr>p_status := ''completed'', p_progress := JFloat 100,
                     p_completed_at := Some now\<rparr>)\<rparr>,
                a_outbox := a_outbox a @
                   [(wa_sender, completed_note (JStr k)), (wa_receiver, completed_note (JStr k))]\<rparr>)
       \<and> a_handle_transfer_complete client_id message websocket now'
            (snd (a_handle_transfer_complete client_id message websocket now a))
           = (None,
              a\<lparr>a_p2p := (a_p2p a)\<lparr>pm_active_transfers := (pm_active_transfers (a_p2p a))(k \<mapsto>
                   p\<lparr>p_status := ''completed'', p_progress := JFloat 100,
                     p_completed_at := Some now'\<rparr>)\<rparr>,
                a_outbox := a_outbox a @
                   [(wa_sender, completed_note (JStr k)), (wa_receiver, completed_note (JStr k)),
                    (wa_sender, completed_note (JStr k)), (wa_receiver, completed_note (JStr k))]\<rparr>)"
proof -
  let ?s1 = "s\<lparr>m_transfers := (m_transfers s)(k \<mapsto>
                   t\<lparr>t_status := ''completed'', t_progress := JInt 100\<rparr>),
                m_outbox := m_outbox s @ [(ws_sender, completed_note (JStr k))]\<rparr>"
  let ?a1 = "a\<lparr>a_p2p := (a_p2p a)\<lparr>pm_active_transfers := (pm_active_transfers (a_p2p a))(k \<mapsto>
                   p\<lparr>p_status := ''completed'', p_progress := JFloat 100,
                     p_completed_at := Some now\<rparr>)\<rparr>,
                a_outbox := a_outbox a @
                   [(wa_sender, completed_note (JStr k)), (wa_receiver, completed_note (JStr k))]\<rparr>"
  have m1: "handle_transfer_complete client_id message websocket s = (None, ?s1)"
    by (rule handle_transfer_complete_known [OF assms(1-3)])
  have m2: "handle_transfer_complete client_id message websocket ?s1
           = (None,
              s\<lparr>m_transfers := (m_transfers s)(k \<mapsto>
                   t\<lparr>t_status := ''completed'', t_progress := JInt 100\<rparr>),
                m_outbox := m_outbox s @
                   [(ws_sender, completed_note (JStr k)), (ws_sender, completed_note (JStr k))]\<rparr>)"
    using assms(1-3)
    by (subst handle_transfer_complete_known
          [where k = k and ws_sender = ws_sender
             and t = "t\<lparr>t_status := ''completed'', t_progress := JInt 100\<rparr>"]) simp_all
  have a1: "a_handle_transfer_complete client_id message websocket now a = (None, ?a1)"
    by (rule a_handle_transfer_complete_known [OF assms(1) assms(4-7)])
  have a2: "a_handle_transfer_complete client_id message websocket now' ?a1
           = (None,
              a\<lparr>a_p2p := (a_p2p a)\<lparr>pm_active_transfers := (pm_active_transfers (a_p2p a))(k \<mapsto>
                   p\<lparr>p_status := ''completed'', p_progress := JFloat 100,
                     p_completed_at := Some now'\<rparr>)\<rparr>,
                a_outbox := a_outbox a @
                   [(wa_sender, completed_note (JStr k)), (wa_receiver, completed_note (JStr k)),
                    (wa_sender, completed_note (JStr k)), (wa_receiver, completed_note (JStr k))]\<rparr>)"
    using assms(1) assms(4-7)
    by (subst a_handle_transfer_complete_known
          [where k = k and wa_sender = wa_sender and wa_receiver = wa_receiver and rid = rid
             and p = "p\<lparr>p_status := ''completed'', p_progress := JFloat 100,
                     p_completed_at := Some now\<rparr>"]) simp_all
  show ?thesis
    using m1 m2 a1 a2 by simp
qed

theorem C7_witness:
  "dict_get complete0 ''transfer_id'' = JStr ''t1''
   \<and> m_transfers st1 ''t1'' = Some tr1
   \<and> m_active_connections st1 (t_sender_id tr1) = Some 1
   \<and> map_option p_sender_id (pm_active_transfers (a_p2p adv1) ''t1'') = Some ''alice''
   \<and> map_option p_receiver_id (pm_active_transfers (a_p2p adv1) ''t1'') = Some (JStr ''bob'')
   \<and> m_outbox (snd (handle_transfer_complete ''bob'' complete0 2 st1))
       = [(1, completed_note (JStr ''t1''))]
   \<and> a_outbox (snd (a_handle_transfer_complete ''bob'' complete0 2 ''n1'' adv1))
       = [(1, completed_note (JStr ''t1'')), (2, completed_note (JStr ''t1''))]
   \<and> map_option p_status
        (pm_active_transfers (a_p2p (snd (a_handle_transfer_complete ''bob'' complete0 2 ''n1'' adv1)))
           ''t1'')
       = Some ''completed''
   \<and> a_outbox (snd (a_handle_transfer_complete ''bob'' complete0 2 ''n2''
                       (snd (a_handle_transfer_complete ''bob'' complete0 2 ''n1'' adv1))))
       = [(1, completed_note (JStr ''t1'')), (2, completed_note (JStr ''t1'')),
          (1, completed_note (JStr ''t1'')), (2, completed_note (JStr ''t1''))]"
  using C7_complete_notifies_and_repeats [of complete0 "''t1''" st1 tr1 1 adv1 "the (pm_active_transfers (a_p2p adv1) ''t1'')"
               1 "''bob''" 2 "''bob''" 2 "''n1''" "''n2''"]
  by (simp add: adv1_eval complete0_def st1_def tr1_def a_handle_transfer_complete_def
        p2p_complete_transfer_def a_send_to_client_def a_send_text_def and_then_def
        completed_note_def)



section \<open>Whose message is it\<close>


lemma a_set_webrtc_same: "a_set_webrtc (pm_webrtc_manager (a_p2p s)) s = s"
  by (simp add: a_set_webrtc_def)







lemma a_offer_accepted:
  assumes "wm_active_connections (pm_webrtc_manager (a_p2p a)) k = Some c"
    and "c_receiver_id c = JStr rid"
    and "a_active_connections a rid = Some ws_receiver"
    and "dict_get message ''connection_id'' = JStr k" and "k \<noteq> []"
    and "truthy (dict_get message ''offer'')"
  shows "a_handle_webrtc_offer (c_sender_id c) message websocket a
           = (None,
              a\<lparr>a_p2p := (a_p2p a)\<lparr>pm_webrtc_manager := (pm_webrtc_manager (a_p2p a))
                   \<lparr>wm_active_connections :=
                      (wm_active_connections (pm_webrtc_manager (a_p2p a)))(k \<mapsto>
                         c\<lparr>c_offer := dict_get message ''offer'',
                           c_status := ''offer_received''\<rparr>)\<rparr>\<rparr>,
                a_outbox := a_outbox a @
                   [(ws_receiver, [(''type'', JStr ''webrtc_offer''), (''connection_id'', JStr k),
                                   (''offer'', dict_get message ''offer''),
                                   (''sender_id'', JStr (c_sender_id c))]),
                    (websocket, [(''type'', JStr ''webrtc_offer_processed''),
                                 (''connection_id'', JStr k), (''success'', JBool True)])]\<rparr>)"
  using assms
  by (simp add: handle_offer_def a_handle_webrtc_offer_def get_connection_info_def
        a_send_to_client_def a_send_text_def a_set_webrtc_def and_then_def Let_def)





section \<open>Answers\<close>

text \<open>
  Claim C3 says that an answer whose negotiation has no offer on record is rejected with
  NoMatchingOffer and not forwarded. In \<^verbatim>\<open>advanced_server.py\<close> the connection \<open>c1\<close> has no
  offer on record, yet the answer of \<open>bob\<close> succeeds and is forwarded to socket 1 of
  \<open>alice\<close>; in \<^verbatim>\<open>ultimate_main.py\<close>, which records no offers at all, the answer of \<open>bob\<close>
  is forwarded to \<open>alice\<close> as well.
\<close>

theorem C3_counterexample:
  "map_option c_offer (wm_active_connections (pm_webrtc_manager (a_p2p adv1)) ''c1'') = Some JNone
   \<and> fst (handle_answer (JStr ''c1'') sdp_answer ''bob'' (pm_webrtc_manager (a_p2p adv1))) = Inr True
   \<and> a_outbox (snd (a_handle_webrtc_answer ''bob'' answer_c1 2 adv1))
       = [(1, [(''type'', JStr ''webrtc_answer''), (''connection_id'', JStr ''c1''),
               (''answer'', sdp_answer), (''receiver_id'', JStr ''bob'')]),
          (2, [(''type'', JStr ''webrtc_answer_processed''), (''connection_id'', JStr ''c1''),
               (''success'', JBool True)])]
   \<and> u_handle_webrtc_answer ''bob'' u_answer 2 u0
       = (None, u0\<lparr>u_outbox := [(1, [(''type'', JStr ''webrtc_answer''), (''answer'', sdp_answer),
                                       (''from_client'', JStr ''bob'')])]\<rparr>)"
  by (simp add: adv1_eval answer_c1_def u_answer_def sdp_answer_def u0_def handle_answer_def
        a_handle_webrtc_answer_def u_handle_webrtc_answer_def u_target_registered_def
        u_send_to_client_def a_send_to_client_def a_send_text_def a_set_webrtc_def
        get_connection_info_def and_then_def)

lemma handle_answer_known:
  assumes "wm_active_connections wm k = Some c" and "c_receiver_id c = JStr client_id"
  shows "handle_answer (JStr k) answer client_id wm
           = (Inr True,
              wm\<lparr>wm_active_connections := (wm_active_connections wm)(k \<mapsto>
                    c\<lparr>c_answer := answer, c_status := ''answer_received''\<rparr>)\<rparr>)"
  using assms by (simp add: handle_answer_def)

lemma handle_answer_unknown:
  assumes "wm_active_connections wm k = None"
  shows "handle_answer (JStr k) answer client_id wm = (Inr False, wm)"
  using assms by (simp add: handle_answer_def)

lemma handle_offer_known:
  assumes "wm_active_connections wm k = Some c"
  shows "handle_offer (JStr k) offer (c_sender_id c) wm
           = (Inr True,
              wm\<lparr>wm_active_connections := (wm_active_connections wm)(k \<mapsto>
                    c\<lparr>c_offer := offer, c_status := ''offer_received''\<rparr>)\<rparr>)"
  using assms by (simp add: handle_offer_def)

lemma a_answer_accepted:
  assumes "wm_active_connections (pm_webrtc_manager (a_p2p a)) k = Some c"
    and "c_receiver_id c = JStr client_id"
    and "a_active_connections a (c_sender_id c) = Some ws_sender"
    and "dict_get message ''connection_id'' = JStr k" and "k \<noteq> []"
    and "truthy (dict_get message ''answer'')"
  shows "a_handle_webrtc_answer client_id message websocket a
           = (None,
              a\<lparr>a_p2p := (a_p2p a)\<lparr>pm_webrtc_manager := (pm_webrtc_manager (a_p2p a))
                   \<lparr>wm_active_connections :=
                      (wm_active_connections (pm_webrtc_manager (a_p2p a)))(k \<mapsto>
                         c\<lparr>c_answer := dict_get message ''answer'',
                           c_status := ''answer_received''\<rparr>)\<rparr>\<rparr>,
                a_outbox := a_outbox a @
                   [(ws_sender, [(''type'', JStr ''webrtc_answer''), (''connection_id'', JStr k),
                                 (''answer'', dict_get message ''answer''),
                                 (''receiver_id'', JStr client_id)]),
                    (websocket, [(''type'', JStr ''webrtc_answer_processed''),
                                 (''connection_id'', JStr k), (''success'', JBool True)])]\<rparr>)"
  using assms
  by (simp add: handle_answer_def a_handle_webrtc_answer_def get_connection_info_def
        a_send_to_client_def a_send_text_def a_set_webrtc_def and_then_def Let_def)

lemma a_answer_unknown:
  assumes "wm_active_connections (pm_webrtc_manager (a_p2p a)) k = None"
    and "dict_get message ''connection_id'' = JStr k" and "k \<noteq> []"
    and "truthy (dict_get message ''answer'')"
  shows "a_handle_webrtc_answer client_id message websocket a
           = (None, a\<lparr>a_outbox := a_outbox a @
                [(websocket, [(''type'', JStr ''webrtc_answer_processed''),
                              (''connection_id'', JStr k), (''success'', JBool False)])]\<rparr>)"
  using assms
  by (simp add: handle_answer_def a_handle_webrtc_answer_def a_set_webrtc_same and_then_def
        a_send_text_def Let_def)

lemma a_answer_wrong_session:
  assumes "wm_active_connections (pm_webrtc_manager (a_p2p a)) k = Some c"
    and "c_receiver_id c \<noteq> JStr client_id"
    and "dict_get message ''connection_id'' = JStr k" and "k \<noteq> []"
    and "truthy (dict_get message ''answer'')"
  shows "a_handle_webrtc_answer client_id message websocket a
           = (None, a\<lparr>a_outbox := a_outbox a @
                [(websocket, [(''type'', JStr ''webrtc_answer_processed''),
                              (''connection_id'', JStr k), (''success'', JBool False)])]\<rparr>)"
  using assms
  by (simp add: handle_answer_def a_handle_webrtc_answer_def a_set_webrtc_same and_then_def
        a_send_text_def Let_def)

lemma a_offer_then_answer:
  assumes "wm_active_connections (pm_webrtc_manager (a_p2p a)) k = Some c"
    and "c_receiver_id c = JStr client_id"
    and "a_active_connections a (c_sender_id c) = Some ws_sender"
    and "a_active_connections a client_id = Some ws_receiver"
    and "dict_get message ''connection_id'' = JStr k" and "k \<noteq> []"
    and "truthy (dict_get message ''answer'')"
    and "dict_get offer_message ''connection_id'' = JStr k"
    and "truthy (dict_get offer_message ''offer'')"
  shows "a_handle_webrtc_answer client_id message websocket
            (snd (a_handle_webrtc_offer (c_sender_id c) offer_message offer_socket a))
           = (None,
              a\<lparr>a_p2p := (a_p2p a)\<lparr>pm_webrtc_manager := (pm_webrtc_manager (a_p2p a))
                   \<lparr>wm_active_connections :=
                      (wm_active_connections (pm_webrtc_manager (a_p2p a)))(k \<mapsto>
                         c\<lparr>c_offer := dict_get offer_message ''offer'',
                           c_answer := dict_get message ''answer'',
                           c_status := ''answer_received''\<rparr>)\<rparr>\<rparr>,
                a_outbox := a_outbox a @
                   [(ws_receiver, [(''type'', JStr ''webrtc_offer''), (''connection_id'', JStr k),
                                   (''offer'', dict_get offer_message ''offer''),
                                   (''sender_id'', JStr (c_sender_id c))]),
                    (offer_socket, [(''type'', JStr ''webrtc_offer_processed''),
                                    (''connection_id'', JStr k), (''success'', JBool True)]),
                    (ws_sender, [(''type'', JStr ''webrtc_answer''), (''connection_id'', JStr k),
                                 (''answer'', dict_get message ''answer''),
                                 (''receiver_id'', JStr client_id)]),
                    (websocket, [(''type'', JStr ''webrtc_answer_processed''),
                                 (''connection_id'', JStr k), (''success'', JBool True)])]\<rparr>)"
proof -
  let ?c1 = "c\<lparr>c_offer := dict_get offer_message ''offer'', c_status := ''offer_received''\<rparr>"
  let ?a1 = "a\<lparr>a_p2p := (a_p2p a)\<lparr>pm_webrtc_manager := (pm_webrtc_manager (a_p2p a))
                   \<lparr>wm_active_connections :=
                      (wm_active_connections (pm_webrtc_manager (a_p2p a)))(k \<mapsto> ?c1)\<rparr>\<rparr>,
                a_outbox := a_outbox a @
                   [(ws_receiver, [(''type'', JStr ''webrtc_offer''), (''connection_id'', JStr k),
                                   (''offer'', dict_get offer_message ''offer''),
                                   (''sender_id'', JStr (c_sender_id c))]),
                    (offer_socket, [(''type'', JStr ''webrtc_offer_processed''),
                                    (''connection_id'', JStr k), (''success'', JBool True)])]\<rparr>"
  have o: "a_handle_webrtc_offer (c_sender_id c) offer_message offer_socket a = (None, ?a1)"
    by (rule a_offer_accepted [OF assms(1,2,4,8,6,9)])
  have "a_handle_webrtc_answer client_id message websocket ?a1
          = (None,
              ?a1\<lparr>a_p2p := (a_p2p ?a1)\<lparr>pm_webrtc_manager := (pm_webrtc_manager (a_p2p ?a1))
                   \<lparr>wm_active_connections :=
                      (wm_active_connections (pm_webrtc_manager (a_p2p ?a1)))(k \<mapsto>
                         ?c1\<lparr>c_answer := dict_get message ''answer'',
                           c_status := ''answer_received''\<rparr>)\<rparr>\<rparr>,
                a_outbox := a_outbox ?a1 @
                   [(ws_sender, [(''type'', JStr ''webrtc_answer''), (''connection_id'', JStr k),
                                 (''answer'', dict_get message ''answer''),
                                 (''receiver_id'', JStr client_id)]),
                    (websocket, [(''type'', JStr ''webrtc_answer_processed''),
                                 (''connection_id'', JStr k), (''success'', JBool True)])]\<rparr>)"
    using assms by (intro a_answer_accepted) simp_all
  with o show ?thesis by simp
qed

text \<open>
  Claim C3, as amended: an answer is accepted whether or not an offer is on record.
  \<^verbatim>\<open>WebRTCManager.handle_answer\<close> succeeds when the connection id is known and the session is
  the connection's receiver: it records the answer, and \<^verbatim>\<open>advanced_server.py\<close> forwards it to
  the connection's sender and reports success to the answerer. An answer naming an unknown
  connection id, or coming from a session that is not the connection's receiver, gets
  \<open>False\<close>: \<^verbatim>\<open>advanced_server.py\<close> reports success false to the answerer, forwards
  nothing and changes nothing else. An offer from the connection's sender followed by an answer
  from its receiver both succeed, and the server forwards the offer to the receiver and the
  answer to the sender. \<^verbatim>\<open>ultimate_main.py\<close> forwards every answer whose target is
  registered.
\<close>

theorem C3_answer_needs_no_offer:
  assumes "wm_active_connections (pm_webrtc_manager (a_p2p a)) k = Some c"
    and "c_receiver_id c = JStr client_id"
    and "a_active_connections a (c_sender_id c) = Some ws_sender"
    and "a_active_connections a client_id = Some ws_receiver"
    and "dict_get message ''connection_id'' = JStr k" and "k \<noteq> []"
    and "truthy (dict_get message ''answer'')"
    and "dict_get offer_message ''connection_id'' = JStr k"
    and "truthy (dict_get offer_message ''offer'')"
    and "wm_active_connections (pm_webrtc_manager (a_p2p a)) k_unknown = None"
    and "dict_get stray ''connection_id'' = JStr k_unknown" and "k_unknown \<noteq> []"
    and "truthy (dict_get stray ''answer'')"
    and "other_id \<noteq> client_id"
    and "dict_get umessage ''target_client'' = JStr target" and "target \<noteq> []"
    and "u_active_connections u target = Some ws_target"
  shows "handle_answer (JStr k) answer client_id (pm_webrtc_manager (a_p2p a))
           = (Inr True,
              (pm_webrtc_manager (a_p2p a))
                \<lparr>wm_active_connections := (wm_active_connections (pm_webrtc_manager (a_p2p a)))(k \<mapsto>
                    c\<lparr>c_answer := answer, c_status := ''answer_received''\<rparr>)\<rparr>)
       \<and> a_handle_webrtc_answer client_id message websocket a
           = (None,
              a\<lparr>a_p2p := (a_p2p a)\<lparr>pm_webrtc_manager := (pm_webrtc_manager (a_p2p a))
                   \<lparr>wm_active_connections :=
                      (wm_active_connections (pm_webrtc_manager (a_p2p a)))(k \<mapsto>
                         c\<lparr>c_answer := dict_get message ''answer'',
                           c_status := ''answer_received''\<rparr>)\<rparr>\<rparr>,
                a_outbox := a_outbox a @
                   [(ws_sender, [(''type'', JStr ''webrtc_answer''), (''connection_id'', JStr k),
                                 (''answer'', dict_get message ''answer''),
                                 (''receiver_id'', JStr client_id)]),
                    (websocket, [(''type'', JStr ''webrtc_answer_processed''),
                                 (''connection_id'', JStr k), (''success'', JBool True)])]\<rparr>)
       \<and> handle_answer (JStr k_unknown) answer client_id (pm_webrtc_manager (a_p2p a))
           = (Inr False, pm_webrtc_manager (a_p2p a))
       \<and> a_handle_webrtc_answer any_client stray websocket a
           = (None, a\<lparr>a_outbox := a_outbox a @
                [(websocket, [(''type'', JStr ''webrtc_answer_processed''),
                              (''connection_id'', JStr k_unknown), (''success'', JBool False)])]\<rparr>)
       \<and> a_handle_webrtc_answer other_id message websocket a
           = (None, a\<lparr>a_outbox := a_outbox a @
                [(websocket, [(''type'', JStr ''webrtc_answer_processed''),
                              (''connection_id'', JStr k), (''success'', JBool False)])]\<rparr>)
       \<and> fst (handle_offer (JStr k) offer (c_sender_id c) (pm_webrtc_manager (a_p2p a))) = Inr True
       \<and> fst (handle_answer (JStr k) answer client_id
                (snd (handle_offer (JStr k) offer (c_sender_id c) (pm_webrtc_manager (a_p2p a)))))
           = Inr True
       \<and> a_handle_webrtc_answer client_id message websocket
            (snd (a_handle_webrtc_offer (c_sender_id c) offer_message offer_socket a))
           = (None,
              a\<lparr>a_p2p := (a_p2p a)\<lparr>pm_webrtc_manager := (pm_webrtc_manager (a_p2p a))
                   \<lparr>wm_active_connections :=
                      (wm_active_connections (pm_webrtc_manager (a_p2p a)))(k \<mapsto>
                         c\<lparr>c_offer := dict_get offer_message ''offer'',
                           c_answer := dict_get message ''answer'',
                           c_status := ''answer_received''\<rparr>)\<rparr>\<rparr>,
                a_outbox := a_outbox a @
                   [(ws_receiver, [(''type'', JStr ''webrtc_offer''), (''connection_id'', JStr k),
                                   (''offer'', dict_get offer_message ''offer''),
                                   (''sender_id'', JStr (c_sender_id c))]),
                    (offer_socket, [(''type'', JStr ''webrtc_offer_processed''),
                                    (''connection_id'', JStr k), (''success'', JBool True)]),
                    (ws_sender, [(''type'', JStr ''webrtc_answer''), (''connection_id'', JStr k),
                                 (''answer'', dict_get message ''answer''),
                                 (''receiver_id'', JStr client_id)]),
                    (websocket, [(''type'', JStr ''webrtc_answer_processed''),
                                 (''connection_id'', JStr k), (''success'', JBool True)])]\<rparr>)
       \<and> u_handle_webrtc_answer uclient umessage uwebsocket u
           = (None, u\<lparr>u_outbox := u_outbox u @
                [(ws_target, [(''type'', JStr ''webrtc_answer''),
                              (''answer'', dict_get umessage ''answer''),
                              (''from_client'', JStr uclient)])]\<rparr>)"
proof -
  let ?wm = "pm_webrtc_manager (a_p2p a)"
  note 1 = handle_answer_known [OF assms(1,2), of answer]
  note 2 = a_answer_accepted [OF assms(1-3) assms(5-7), of websocket]
  note 3 = handle_answer_unknown [OF assms(10), of answer client_id]
  note 4 = a_answer_unknown [OF assms(10-13), of any_client websocket]
  have "c_receiver_id c \<noteq> JStr other_id"
    using assms(2,14) by simp
  note 5 = a_answer_wrong_session [OF assms(1) this assms(5-7), of websocket]
  have 6: "fst (handle_offer (JStr k) offer (c_sender_id c) ?wm) = Inr True"
    by (simp add: handle_offer_known [OF assms(1)])
  have 7: "fst (handle_answer (JStr k) answer client_id
                (snd (handle_offer (JStr k) offer (c_sender_id c) ?wm))) = Inr True"
    using assms(2)
    by (simp add: handle_offer_known [OF assms(1)] handle_answer_def)
  note 8 = a_offer_then_answer [OF assms(1-9), of websocket offer_socket]
  have 9: "u_handle_webrtc_answer uclient umessage uwebsocket u
           = (None, u\<lparr>u_outbox := u_outbox u @
                [(ws_target, [(''type'', JStr ''webrtc_answer''),
                              (''answer'', dict_get umessage ''answer''),
                              (''from_client'', JStr uclient)])]\<rparr>)"
    using assms(15-17)
    by (simp add: u_handle_webrtc_answer_def u_target_registered_def u_send_to_client_def Let_def)
  show ?thesis using 1 2 3 4 5 6 7 8 9 by blast
qed

theorem C3_witness:
  "map_option c_receiver_id (wm_active_connections (pm_webrtc_manager (a_p2p adv1)) ''c1'')
     = Some (JStr ''bob'')
   \<and> map_option c_offer (wm_active_connections (pm_webrtc_manager (a_p2p adv1)) ''c1'') = Some JNone
   \<and> wm_active_connections (pm_webrtc_manager (a_p2p adv1)) ''c9'' = None
   \<and> fst (handle_answer (JStr ''c1'') sdp_answer ''bob'' (pm_webrtc_manager (a_p2p adv1))) = Inr True
   \<and> a_outbox (snd (a_handle_webrtc_answer ''bob'' answer_c1 2 adv1))
       = [(1, [(''type'', JStr ''webrtc_answer''), (''connection_id'', JStr ''c1''),
               (''answer'', sdp_answer), (''receiver_id'', JStr ''bob'')]),
          (2, [(''type'', JStr ''webrtc_answer_processed''), (''connection_id'', JStr ''c1''),
               (''success'', JBool True)])]
   \<and> handle_answer (JStr ''c9'') sdp_answer ''bob'' (pm_webrtc_manager (a_p2p adv1))
       = (Inr False, pm_webrtc_manager (a_p2p adv1))
   \<and> a_handle_webrtc_answer ''bob'' answer_c9 2 adv1
       = (None, adv1\<lparr>a_outbox :=
            [(2, [(''type'', JStr ''webrtc_answer_processed''), (''connection_id'', JStr ''c9''),
                  (''success'', JBool False)])]\<rparr>)
   \<and> a_handle_webrtc_answer ''mallory'' answer_c1 2 adv1
       = (None, adv1\<lparr>a_outbox :=
            [(2, [(''type'', JStr ''webrtc_answer_processed''), (''connection_id'', JStr ''c1''),
                  (''success'', JBool False)])]\<rparr>)
   \<and> a_outbox (snd (a_handle_webrtc_answer ''bob'' answer_c1 2
                      (snd (a_handle_webrtc_offer ''alice'' offer_c1 1 adv1))))
       = [(2, [(''type'', JStr ''webrtc_offer''), (''connection_id'', JStr ''c1''),
               (''offer'', dict_get offer_c1 ''offer''), (''sender_id'', JStr ''alice'')]),
          (1, [(''type'', JStr ''webrtc_offer_processed''), (''connection_id'', JStr ''c1''),
               (''success'', JBool True)]),
          (1, [(''type'', JStr ''webrtc_answer''), (''connection_id'', JStr ''c1''),
               (''answer'', sdp_answer), (''receiver_id'', JStr ''bob'')]),
          (2, [(''type'', JStr ''webrtc_answer_processed''), (''connection_id'', JStr ''c1''),
               (''success'', JBool True)])]
   \<and> fst (u_handle_webrtc_answer ''bob'' u_answer 2 u0) = None"
  using C3_answer_needs_no_offer [of adv1 "''c1''" "the (wm_active_connections (pm_webrtc_manager (a_p2p adv1)) ''c1'')"
               "''bob''" 1 2 answer_c1 offer_c1 "''c9''" answer_c9 "''mallory''" u_answer "''alice''"
               u0 1 sdp_answer 2 "''bob''" "JStr ''sdp-offer''" 1 "''bob''" 2]
  by (simp add: adv1_eval answer_c1_def answer_c9_def offer_c1_def u_answer_def sdp_answer_def u0_def
        handle_answer_def handle_offer_def a_handle_webrtc_answer_def a_handle_webrtc_offer_def
        get_connection_info_def a_send_to_client_def a_send_text_def a_set_webrtc_def and_then_def
        u_handle_webrtc_answer_def u_target_registered_def u_send_to_client_def)


section \<open>ICE candidates\<close>















end
